theory Spec2Isabelle
  imports Complex_Main
begin

text \<open>
  A model of the tool-calling loop of OpenCodeCLI: the tool executor (\<open>tools.ts\<close>),
  the audit log (\<open>audit.ts\<close>), the transport client with its retry loop and its
  streaming parser (\<open>llm-client.ts\<close>) and the agent's chat loop (\<open>agent.ts\<close>).
  Asynchronous functions are modelled by what they return or throw: a result is a sum,
  \<open>Inl\<close> for a thrown error and \<open>Inr\<close> for a returned value, paired with the state
  the call leaves behind. Console output is not modelled.
\<close>

section \<open>JavaScript strings\<close>

text \<open>
  A JavaScript string is a sequence of code units. The model holds the strings whose
  code units are below 256, one \<open>char\<close> for each code unit, which then is the
  Latin-1 character with that code.
\<close>

fun startsWith :: "string \<Rightarrow> string \<Rightarrow> bool" where
  "startsWith s [] = True"
| "startsWith [] (p # ps) = False"
| "startsWith (c # cs) (p # ps) = (c = p \<and> startsWith cs ps)"

fun indexOf :: "string \<Rightarrow> string \<Rightarrow> nat option" where
  "indexOf [] pat = (if pat = [] then Some 0 else None)"
| "indexOf (c # cs) pat =
     (if startsWith (c # cs) pat then Some 0 else map_option Suc (indexOf cs pat))"

definition js_includes :: "string \<Rightarrow> string \<Rightarrow> bool" where
  "js_includes s pat = (indexOf s pat \<noteq> None)"

text \<open>
  \<open>S.split(R)\<close> for a string separator: an empty separator yields the characters of
  \<open>S\<close>; otherwise \<open>S\<close> is cut at the leftmost non-overlapping occurrences of \<open>R\<close>.
\<close>

function split_from :: "string \<Rightarrow> string \<Rightarrow> string \<Rightarrow> string list" where
  "split_from sep cur s =
     (if s = [] then [cur]
      else if sep \<noteq> [] \<and> startsWith s sep
        then cur # split_from sep [] (drop (length sep) s)
      else split_from sep (cur @ [hd s]) (tl s))"
  by pat_completeness auto
termination
  by (relation "measure (\<lambda>(sep, cur, s). length s)") auto

declare split_from.simps [simp del]

definition js_split :: "string \<Rightarrow> string \<Rightarrow> string list" where
  "js_split s sep = (if sep = [] then map (\<lambda>c. [c]) s else split_from sep [] s)"

text \<open>
  \<open>S.replace(pattern, replacement)\<close> with a string pattern replaces the first
  occurrence only, and expands the patterns \<open>$$\<close>, \<open>$&\<close>, \<open>$`\<close> and \<open>$'\<close> of the
  replacement text (there are no capture groups, so \<open>$1\<close> and the like stay as written).
\<close>

fun getSubstitution :: "string \<Rightarrow> string \<Rightarrow> string \<Rightarrow> string \<Rightarrow> string" where
  "getSubstitution m b a [] = []"
| "getSubstitution m b a [c] = [c]"
| "getSubstitution m b a (c # d # r) =
     (if c = CHR ''$'' then
        (if d = CHR ''$'' then CHR ''$'' # getSubstitution m b a r
         else if d = CHR ''&'' then m @ getSubstitution m b a r
         else if d = CHR 0x60 then b @ getSubstitution m b a r
         else if d = CHR 0x27 then a @ getSubstitution m b a r
         else c # getSubstitution m b a (d # r))
      else c # getSubstitution m b a (d # r))"

definition js_replace :: "string \<Rightarrow> string \<Rightarrow> string \<Rightarrow> string" where
  "js_replace s pat rep =
     (case indexOf s pat of
        None \<Rightarrow> s
      | Some p \<Rightarrow>
          (let front = take p s; rest = drop (p + length pat) s
           in front @ getSubstitution pat front rest rep @ rest))"

text \<open>Decimal rendering of a number inside a template literal.\<close>

definition digit_char :: "nat \<Rightarrow> char" where
  "digit_char d =
     (if d = 0 then CHR ''0'' else if d = 1 then CHR ''1'' else if d = 2 then CHR ''2''
      else if d = 3 then CHR ''3'' else if d = 4 then CHR ''4'' else if d = 5 then CHR ''5''
      else if d = 6 then CHR ''6'' else if d = 7 then CHR ''7'' else if d = 8 then CHR ''8''
      else CHR ''9'')"

function show_nat :: "nat \<Rightarrow> string" where
  "show_nat n = (if n < 10 then [digit_char n] else show_nat (n div 10) @ [digit_char (n mod 10)])"
  by pat_completeness auto
termination
  by (relation "measure id") auto

declare show_nat.simps [simp del]

definition show_int :: "int \<Rightarrow> string" where
  "show_int i = (if i < 0 then CHR ''-'' # show_nat (nat (- i)) else show_nat (nat i))"

text \<open>
  White space, for \<open>trim\<close> and for \<open>\\s\<close> in a regular expression: tab, line feed,
  vertical tab, form feed, carriage return, space and the no-break space \<open>U+00A0\<close>.
\<close>

definition is_space :: "char \<Rightarrow> bool" where
  "is_space c =
     (c \<in> {CHR 0x09, CHR 0x0A, CHR 0x0B, CHR 0x0C, CHR 0x0D, CHR 0x20, CHR 0xA0})"

text \<open>
  \<open>toLowerCase\<close> maps the letters A to Z and the letters \<open>U+00C0\<close> to \<open>U+00DE\<close>,
  the multiplication sign \<open>U+00D7\<close> excepted, to the code unit 32 above, and leaves
  every other code unit as it is.
\<close>

definition upper_case :: string where
  "upper_case =
     ''ABCDEFGHIJKLMNOPQRSTUVWXYZ'' @
     [CHR 0xC0, CHR 0xC1, CHR 0xC2, CHR 0xC3, CHR 0xC4, CHR 0xC5, CHR 0xC6,
      CHR 0xC7, CHR 0xC8, CHR 0xC9, CHR 0xCA, CHR 0xCB, CHR 0xCC, CHR 0xCD,
      CHR 0xCE, CHR 0xCF, CHR 0xD0, CHR 0xD1, CHR 0xD2, CHR 0xD3, CHR 0xD4,
      CHR 0xD5, CHR 0xD6, CHR 0xD8, CHR 0xD9, CHR 0xDA, CHR 0xDB, CHR 0xDC,
      CHR 0xDD, CHR 0xDE]"

definition lower_case :: string where
  "lower_case =
     ''abcdefghijklmnopqrstuvwxyz'' @
     [CHR 0xE0, CHR 0xE1, CHR 0xE2, CHR 0xE3, CHR 0xE4, CHR 0xE5, CHR 0xE6,
      CHR 0xE7, CHR 0xE8, CHR 0xE9, CHR 0xEA, CHR 0xEB, CHR 0xEC, CHR 0xED,
      CHR 0xEE, CHR 0xEF, CHR 0xF0, CHR 0xF1, CHR 0xF2, CHR 0xF3, CHR 0xF4,
      CHR 0xF5, CHR 0xF6, CHR 0xF8, CHR 0xF9, CHR 0xFA, CHR 0xFB, CHR 0xFC,
      CHR 0xFD, CHR 0xFE]"

definition lower_char :: "char \<Rightarrow> char" where
  "lower_char c = (case map_of (zip upper_case lower_case) c of None \<Rightarrow> c | Some l \<Rightarrow> l)"

definition toLowerCase :: "string \<Rightarrow> string" where
  "toLowerCase s = map lower_char s"

definition trim :: "string \<Rightarrow> string" where
  "trim s = rev (dropWhile is_space (rev (dropWhile is_space s)))"

text \<open>\<open>S.split(/\\s+/)\<close>: the string is cut at every maximal run of white space.\<close>

function split_ws_from :: "string \<Rightarrow> string \<Rightarrow> string list" where
  "split_ws_from cur [] = [cur]"
| "split_ws_from cur (c # cs) =
     (if is_space c then cur # split_ws_from [] (dropWhile is_space cs)
      else split_ws_from (cur @ [c]) cs)"
  by pat_completeness auto
termination
  by (relation "measure (\<lambda>(cur, s). length s)")
     (auto simp: length_dropWhile_le less_Suc_eq_le)

definition split_ws :: "string \<Rightarrow> string list" where
  "split_ws s = split_ws_from [] s"


section \<open>Values, errors and the world outside the program\<close>

text \<open>
  Tool arguments are whatever \<open>JSON.parse\<close> returns. An object is held as the list of
  its properties, each key once. A property read yields \<open>undefined\<close>, modelled as
  \<open>None\<close>, when the property is missing.
\<close>

datatype json =
    JNull
  | JBool bool
  | JNum real
  | JStr string
  | JArr "json list"
  | JObj "(string \<times> json) list"

text \<open>
  A JavaScript number is a real number, \<open>NaN\<close> or one of the two infinities. The
  real numbers stand for the finite values; negative zero is not told apart from zero,
  and no operation of the model rounds.
\<close>

datatype js_number = Number real | Not_a_number | Plus_infinity | Minus_infinity

text \<open>
  What the repository's own code and the Node runtime throw is an \<open>Error\<close> object, of
  which only the name and the message are read.
\<close>

datatype thrown = Thrown (err_name: string) (err_message: string)

text \<open>
  A plugin handler is code from outside the repository, and the promise it returns may
  be rejected with any value: with an object that has a message, which is a string (an
  \<open>Error\<close>, as a rule), with \<open>null\<close>, with \<open>undefined\<close>, or with a value that has no
  \<open>message\<close> property, such as a string.
\<close>

datatype rejection = Rejected thrown | Rejected_null | Rejected_undefined | Rejected_other

definition error_toString :: "thrown \<Rightarrow> string" where
  "error_toString e =
     (if err_message e = [] then err_name e else err_name e @ '': '' @ err_message e)"

fun truthy :: "json option \<Rightarrow> bool" where
  "truthy None = False"
| "truthy (Some JNull) = False"
| "truthy (Some (JBool b)) = b"
| "truthy (Some (JNum n)) = (n \<noteq> 0)"
| "truthy (Some (JStr s)) = (s \<noteq> [])"
| "truthy (Some (JArr xs)) = True"
| "truthy (Some (JObj kvs)) = True"

definition js_or :: "json option \<Rightarrow> json \<Rightarrow> json option" where
  "js_or v d = (if truthy v then v else Some d)"

fun get_prop :: "json \<Rightarrow> string \<Rightarrow> json option" where
  "get_prop (JObj kvs) k = map_of kvs k"
| "get_prop v k = None"

type_synonym files = "string \<rightharpoonup> string"

datatype exec_outcome =
    Exec_ok string string
  | Exec_failed string string string

record audit_entry =
  a_tool :: string
  a_args :: json
  a_result :: "string option"
  a_error :: "string option"

record audit_record =
  r_ts :: string
  r_cwd :: string
  r_entry :: audit_entry

text \<open>
  The state the program acts on. \<open>w_files\<close> holds the readable regular files by
  absolute path. The other fields record what the program did, oldest first: the
  commands handed to the shell by \<open>runCommand\<close>, the number of approval questions
  asked, the number of random identifiers drawn, the records handed to the audit sink
  and the records the sink accepted. \<open>w_auditPath\<close> is the module variable of the
  audit module.
\<close>

record world =
  w_files :: files
  w_shell :: "string list"
  w_asked :: nat
  w_drawn :: nat
  w_auditPath :: "string option"
  w_emitted :: "audit_record list"
  w_persisted :: "audit_record list"

text \<open>
  The Node.js runtime and the user, neither of which the repository defines, are
  parameters of the model: the JSON codec, path resolution, the outcome of file
  reads and writes that fail, the shell, the user's reply to the k-th approval
  question, the k-th value of \<open>Math.random().toString(36).substr(2, 9)\<close>, the clock,
  the working directory, whether the k-th append to the audit file fails, the string
  conversion of a value that is not a string, and the tool methods that no property
  here depends on (\<open>writeFile\<close>, \<open>readFile\<close>, \<open>listFiles\<close>, the five git methods,
  \<open>grepSearch\<close> and \<open>createDirectory\<close>), each of which returns a string or throws
  and may change the files.
\<close>

record node =
  JSON_parse :: "string \<Rightarrow> thrown + json"
  JSON_stringify :: "json \<Rightarrow> string"
  String_of :: "json \<Rightarrow> string"
  path_resolve :: "string \<Rightarrow> string \<Rightarrow> string"
  read_failure :: "string \<Rightarrow> string"
  write_failure :: "string \<Rightarrow> string option"
  exec_shell :: "string \<Rightarrow> files \<Rightarrow> exec_outcome \<times> files"
  question :: "nat \<Rightarrow> string"
  random_suffix :: "nat \<Rightarrow> string"
  now :: "nat \<Rightarrow> string"
  process_cwd :: string
  append_fails :: "nat \<Rightarrow> bool"
  builtin :: "string \<Rightarrow> json option list \<Rightarrow> files \<Rightarrow> (thrown + string) \<times> files"

section \<open>The audit module\<close>

definition setAuditLog :: "string option \<Rightarrow> world \<Rightarrow> world" where
  "setAuditLog filePath w = w\<lparr>w_auditPath := filePath\<rparr>"

text \<open>
  \<open>fs.appendFileSync\<close> on the audit file: the record is handed to the sink, which
  accepts it or throws.
\<close>

definition appendFileSync ::
  "node \<Rightarrow> audit_record \<Rightarrow> world \<Rightarrow> (thrown + unit) \<times> world" where
  "appendFileSync nd r w =
     (let w1 = w\<lparr>w_emitted := w_emitted w @ [r]\<rparr>
      in if append_fails nd (length (w_emitted w))
         then (Inl (Thrown ''Error'' ''append failed''), w1)
         else (Inr (), w1\<lparr>w_persisted := w_persisted w1 @ [r]\<rparr>))"

text \<open>
  \<open>auditLog\<close> returns at once when no audit path is set; a failure of the sink is
  caught and ignored.
\<close>

definition auditLog :: "node \<Rightarrow> audit_entry \<Rightarrow> world \<Rightarrow> world" where
  "auditLog nd entry w =
     (case w_auditPath w of
        None \<Rightarrow> w
      | Some p \<Rightarrow>
          if p = [] then w
          else
            (let r = \<lparr>r_ts = now nd (length (w_emitted w)), r_cwd = process_cwd nd,
                       r_entry = entry\<rparr>
             in case appendFileSync nd r w of
                  (Inl e, w1) \<Rightarrow> w1
                | (Inr u, w1) \<Rightarrow> w1))"

section \<open>The tool executor\<close>

record tool_call =
  tc_id :: "string option"
  fn_name :: string
  fn_arguments :: string

record tool_result =
  tr_tool_call_id :: string
  tr_name :: string
  tr_content :: string

text \<open>
  A plugin handler is given the decoded arguments; it resolves to a string or is
  rejected, and may change the files. It is taken to settle.
\<close>

type_synonym handler = "json \<Rightarrow> files \<Rightarrow> (rejection + string) \<times> files"

record executor_options =
  o_autoApproveCommands :: "bool option"
  o_pluginHandlers :: "(string \<rightharpoonup> handler) option"
  o_dryRun :: "bool option"
  o_allowlistCommands :: "string list option"

record executor =
  workspaceRoot :: string
  autoApproveCommands :: bool
  pluginHandlers :: "string \<rightharpoonup> handler"
  dryRun :: bool
  allowlistCommands :: "string set"

text \<open>The constructor: defaults for missing options; allowlist entries are lower-cased and trimmed.\<close>

definition new_executor :: "node \<Rightarrow> executor_options \<Rightarrow> executor" where
  "new_executor nd opts =
     \<lparr>workspaceRoot = process_cwd nd,
      autoApproveCommands = (case o_autoApproveCommands opts of None \<Rightarrow> False | Some b \<Rightarrow> b),
      pluginHandlers = (case o_pluginHandlers opts of None \<Rightarrow> Map.empty | Some h \<Rightarrow> h),
      dryRun = (case o_dryRun opts of None \<Rightarrow> False | Some b \<Rightarrow> b),
      allowlistCommands =
        set (map (\<lambda>c. trim (toLowerCase c))
               (case o_allowlistCommands opts of None \<Rightarrow> [] | Some cs \<Rightarrow> cs))\<rparr>"

definition type_error :: "string \<Rightarrow> thrown" where
  "type_error what = Thrown ''TypeError'' what"

text \<open>
  \<open>path.resolve\<close> throws a \<open>TypeError\<close> for a path that is not a string; its message
  ends with a description of the value received.
\<close>

definition received :: "node \<Rightarrow> json option \<Rightarrow> string" where
  "received nd v =
     (case v of
        None \<Rightarrow> ''undefined''
      | Some JNull \<Rightarrow> ''null''
      | Some (JBool b) \<Rightarrow> ''type boolean ('' @ (if b then ''true'' else ''false'') @ '')''
      | Some (JNum n) \<Rightarrow> ''type number ('' @ String_of nd (JNum n) @ '')''
      | Some (JStr s) \<Rightarrow> ''type string ('' @ [CHR 0x27] @ s @ [CHR 0x27] @ '')''
      | Some (JArr xs) \<Rightarrow> ''an instance of Array''
      | Some (JObj kvs) \<Rightarrow> ''an instance of Object'')"

definition resolvePath :: "node \<Rightarrow> executor \<Rightarrow> json option \<Rightarrow> thrown + string" where
  "resolvePath nd ex filePath =
     (case filePath of
        Some (JStr p) \<Rightarrow> Inr (path_resolve nd (workspaceRoot ex) p)
      | _ \<Rightarrow>
          Inl (type_error (''The '' @ [CHR 0x22] @ ''paths[1]'' @ [CHR 0x22]
                 @ '' argument must be of type string. Received '' @ received nd filePath)))"

text \<open>\<open>String(v)\<close> for a value handed to a string method.\<close>

definition to_String :: "node \<Rightarrow> json option \<Rightarrow> string" where
  "to_String nd v =
     (case v of
        None \<Rightarrow> ''undefined''
      | Some JNull \<Rightarrow> ''null''
      | Some (JBool b) \<Rightarrow> (if b then ''true'' else ''false'')
      | Some (JStr s) \<Rightarrow> s
      | Some j \<Rightarrow> String_of nd j)"

definition fs_readFile :: "node \<Rightarrow> string \<Rightarrow> world \<Rightarrow> thrown + string" where
  "fs_readFile nd fullPath w =
     (case w_files w fullPath of
        None \<Rightarrow> Inl (Thrown ''Error'' (read_failure nd fullPath))
      | Some content \<Rightarrow> Inr content)"

definition fs_writeFile :: "node \<Rightarrow> string \<Rightarrow> string \<Rightarrow> world \<Rightarrow> thrown + world" where
  "fs_writeFile nd fullPath content w =
     (case write_failure nd fullPath of
        Some msg \<Rightarrow> Inl (Thrown ''Error'' msg)
      | None \<Rightarrow> Inr (w\<lparr>w_files := (w_files w)(fullPath \<mapsto> content)\<rparr>))"

text \<open>
  \<open>editFile\<close>. The path is resolved outside the \<open>try\<close>, so a path that is not a
  string throws. \<open>content.split(undefined)\<close> does not split.
\<close>

definition editFile ::
  "node \<Rightarrow> executor \<Rightarrow> json option \<Rightarrow> json option \<Rightarrow> json option \<Rightarrow> world
     \<Rightarrow> (thrown + string) \<times> world" where
  "editFile nd ex filePath oldText newText w =
     (case resolvePath nd ex filePath of
        Inl e \<Rightarrow> (Inl e, w)
      | Inr fullPath \<Rightarrow>
          (case fs_readFile nd fullPath w of
             Inl e \<Rightarrow> (Inr (''Error editing file: '' @ err_message e), w)
           | Inr content \<Rightarrow>
               if \<not> js_includes content (to_String nd oldText)
               then (Inr (''Error: Could not find the specified text in '' @ to_String nd filePath
                          @ ''. Make sure to use exact matching text.''), w)
               else
                 (let occurrences =
                        int (length (case oldText of
                                       None \<Rightarrow> [content]
                                     | Some v \<Rightarrow> js_split content (to_String nd oldText))) - 1;
                      newContent = js_replace content (to_String nd oldText) (to_String nd newText)
                  in case fs_writeFile nd fullPath newContent w of
                       Inl e \<Rightarrow> (Inr (''Error editing file: '' @ err_message e), w)
                     | Inr w1 \<Rightarrow>
                         (Inr (''Successfully edited '' @ to_String nd filePath @ ''. Replaced ''
                               @ show_int occurrences @ '' occurrence(s).''), w1))))"

text \<open>
  \<open>runCommand\<close> on a command string. The shell is reached only through
  \<open>exec_shell\<close>, and every command handed to it is appended to \<open>w_shell\<close>.
\<close>

definition cmdBase_of :: "string \<Rightarrow> string" where
  "cmdBase_of command =
     toLowerCase (case split_ws (trim command) of [] \<Rightarrow> [] | t # ts \<Rightarrow> t)"


definition execAsync :: "node \<Rightarrow> string \<Rightarrow> world \<Rightarrow> exec_outcome \<times> world" where
  "execAsync nd command w =
     (case exec_shell nd command (w_files w) of
        (r, fs) \<Rightarrow> (r, w\<lparr>w_files := fs, w_shell := w_shell w @ [command]\<rparr>))"

definition run_shell :: "node \<Rightarrow> string \<Rightarrow> world \<Rightarrow> string \<times> world" where
  "run_shell nd command w =
     (case execAsync nd command w of
        (Exec_ok out err, w1) \<Rightarrow>
          (out @ (if err \<noteq> [] then [CHR 0x0A] @ ''Stderr: '' @ err else []), w1)
      | (Exec_failed msg out err, w1) \<Rightarrow>
          (''Command failed: '' @ msg @ [CHR 0x0A] @ ''Stdout: '' @ out
             @ [CHR 0x0A] @ ''Stderr: '' @ err, w1))"

definition runCommand :: "node \<Rightarrow> executor \<Rightarrow> string \<Rightarrow> world \<Rightarrow> string \<times> world" where
  "runCommand nd ex command w =
     (let cmdBase = cmdBase_of command;
          isAllowlisted = (allowlistCommands ex \<noteq> {} \<and> cmdBase \<in> allowlistCommands ex);
          shouldAutoApprove =
            (autoApproveCommands ex \<and> (allowlistCommands ex = {} \<or> isAllowlisted))
      in if \<not> shouldAutoApprove then
           (if autoApproveCommands ex \<and> allowlistCommands ex \<noteq> {} \<and> \<not> isAllowlisted
            then (''Command '' @ [CHR 0x22] @ cmdBase @ [CHR 0x22]
                  @ '' not in allowlist. Use --allow '' @ [CHR 0x22] @ ''cmd1,cmd2''
                  @ [CHR 0x22] @ '' to add.'', w)
            else
              (let answer = question nd (w_asked w);
                   w1 = w\<lparr>w_asked := Suc (w_asked w)\<rparr>
               in if toLowerCase answer \<noteq> ''y''
                  then (''User denied command execution.'', w1)
                  else run_shell nd command w1))
         else run_shell nd command w)"


text \<open>
  The \<open>switch\<close> of \<open>execute\<close>. Reading a property of \<open>null\<close> throws before the
  method is called; a command that is not a string has no \<open>trim\<close> method, so
  \<open>runCommand\<close> throws on it. What a method of the executor throws is an \<open>Error\<close>
  object; what the \<open>default\<close> branch throws is what the plugin handler rejects with.
\<close>

definition reading ::
  "json \<Rightarrow> string \<Rightarrow> world \<Rightarrow> (thrown + string) \<times> world
     \<Rightarrow> (rejection + string) \<times> world" where
  "reading args k w body =
     (if args = JNull
      then (Inl (Rejected (type_error (''Cannot read properties of null (reading ''
                   @ [CHR 0x27] @ k @ [CHR 0x27] @ '')''))), w)
      else (case body of
              (Inl e, w1) \<Rightarrow> (Inl (Rejected e), w1)
            | (Inr out, w1) \<Rightarrow> (Inr out, w1)))"

definition external ::
  "node \<Rightarrow> string \<Rightarrow> json option list \<Rightarrow> world \<Rightarrow> (thrown + string) \<times> world" where
  "external nd method vs w =
     (case builtin nd method vs (w_files w) of (r, fs) \<Rightarrow> (r, w\<lparr>w_files := fs\<rparr>))"

definition runCommand_arg ::
  "node \<Rightarrow> executor \<Rightarrow> json option \<Rightarrow> world \<Rightarrow> (thrown + string) \<times> world" where
  "runCommand_arg nd ex command w =
     (case command of
        None \<Rightarrow>
          (Inl (type_error ''Cannot read properties of undefined (reading 'trim')''), w)
      | Some JNull \<Rightarrow>
          (Inl (type_error ''Cannot read properties of null (reading 'trim')''), w)
      | Some (JStr c) \<Rightarrow> (case runCommand nd ex c w of (out, w1) \<Rightarrow> (Inr out, w1))
      | _ \<Rightarrow> (Inl (type_error ''command.trim is not a function''), w))"

definition dispatch ::
  "node \<Rightarrow> executor \<Rightarrow> string \<Rightarrow> json \<Rightarrow> world \<Rightarrow> (rejection + string) \<times> world" where
  "dispatch nd ex name args w =
     (if name = ''write_file'' \<or> name = ''create_file'' \<or> name = ''file_write'' then
        reading args ''path'' w
          (external nd ''writeFile'' [get_prop args ''path'', get_prop args ''content''] w)
      else if name = ''read_file'' \<or> name = ''file_read'' then
        reading args ''path'' w (external nd ''readFile'' [get_prop args ''path''] w)
      else if name = ''list_files'' \<or> name = ''ls'' then
        reading args ''path'' w
          (external nd ''listFiles'' [js_or (get_prop args ''path'') (JStr ''.'')] w)
      else if name = ''run_command'' \<or> name = ''shell'' \<or> name = ''bash'' then
        reading args ''command'' w (runCommand_arg nd ex (get_prop args ''command'') w)
      else if name = ''git_status'' then
        reading args ''path'' w
          (external nd ''gitStatus'' [js_or (get_prop args ''path'') (JStr ''.'')] w)
      else if name = ''git_diff'' then
        reading args ''staged'' w
          (external nd ''gitDiff''
             [Some (JBool (get_prop args ''staged'' = Some (JBool True))),
              js_or (get_prop args ''path'') (JStr ''.'')] w)
      else if name = ''git_add'' then
        reading args ''paths'' w
          (external nd ''gitAdd''
             [get_prop args ''paths'', js_or (get_prop args ''path'') (JStr ''.'')] w)
      else if name = ''git_commit'' then
        reading args ''message'' w
          (external nd ''gitCommit''
             [get_prop args ''message'', js_or (get_prop args ''path'') (JStr ''.'')] w)
      else if name = ''git_stash'' then
        reading args ''action'' w
          (external nd ''gitStash''
             [get_prop args ''action'', get_prop args ''message'',
              js_or (get_prop args ''path'') (JStr ''.'')] w)
      else if name = ''grep_search'' \<or> name = ''search'' \<or> name = ''grep'' then
        reading args ''pattern'' w
          (external nd ''grepSearch''
             [get_prop args ''pattern'', js_or (get_prop args ''path'') (JStr ''.''),
              Some (JBool (get_prop args ''recursive'' \<noteq> Some (JBool False))),
              Some (JBool (get_prop args ''ignore_case'' = Some (JBool True)))] w)
      else if name = ''edit_file'' \<or> name = ''patch_file'' then
        reading args ''path'' w
          (editFile nd ex (get_prop args ''path'') (get_prop args ''old_text'')
             (get_prop args ''new_text'') w)
      else if name = ''create_directory'' \<or> name = ''mkdir'' then
        reading args ''path'' w (external nd ''createDirectory'' [get_prop args ''path''] w)
      else
        (case pluginHandlers ex name of
           Some handler \<Rightarrow>
             (case handler args (w_files w) of (r, fs) \<Rightarrow> (r, w\<lparr>w_files := fs\<rparr>))
         | None \<Rightarrow> (Inr (''Unknown tool: '' @ name), w)))"

text \<open>The case labels of the \<open>switch\<close>.\<close>

definition tool_names :: "string list" where
  "tool_names =
     [''write_file'', ''create_file'', ''file_write'', ''read_file'', ''file_read'',
      ''list_files'', ''ls'', ''run_command'', ''shell'', ''bash'', ''git_status'', ''git_diff'',
      ''git_add'', ''git_commit'', ''git_stash'', ''grep_search'', ''search'', ''grep'',
      ''edit_file'', ''patch_file'', ''create_directory'', ''mkdir'']"

text \<open>
  \<open>execute\<close>. The call identifier is the call's own when it is present and not
  empty, and otherwise \<open>call_\<close> followed by a random suffix. The result is
  \<open>Inl\<close> when the function throws and \<open>Inr\<close> when it returns.

  The \<open>catch\<close> block reads \<open>err.message\<close>. The read yields the message of an object that
  has one and \<open>undefined\<close> for a value that has none; for \<open>null\<close> and for \<open>undefined\<close>
  the read itself throws a \<open>TypeError\<close>, which nothing catches.
\<close>

fun message_of :: "rejection \<Rightarrow> thrown + string option" where
  "message_of (Rejected e) = Inr (Some (err_message e))"
| "message_of Rejected_null =
     Inl (type_error ''Cannot read properties of null (reading 'message')'')"
| "message_of Rejected_undefined =
     Inl (type_error ''Cannot read properties of undefined (reading 'message')'')"
| "message_of Rejected_other = Inr None"

definition callId_of :: "node \<Rightarrow> tool_call \<Rightarrow> world \<Rightarrow> string \<times> world" where
  "callId_of nd call w =
     (case tc_id call of
        Some i \<Rightarrow>
          if i \<noteq> [] then (i, w)
          else (''call_'' @ random_suffix nd (w_drawn w), w\<lparr>w_drawn := Suc (w_drawn w)\<rparr>)
      | None \<Rightarrow> (''call_'' @ random_suffix nd (w_drawn w), w\<lparr>w_drawn := Suc (w_drawn w)\<rparr>))"

definition execute ::
  "node \<Rightarrow> executor \<Rightarrow> tool_call \<Rightarrow> world \<Rightarrow> (thrown + tool_result) \<times> world" where
  "execute nd ex call w0 =
     (let name = fn_name call
      in case callId_of nd call w0 of
        (callId, w) \<Rightarrow>
          (case JSON_parse nd (fn_arguments call) of
             Inl e \<Rightarrow>
               (Inr \<lparr>tr_tool_call_id = callId, tr_name = name,
                     tr_content = ''Error parsing arguments: '' @ error_toString e\<rparr>, w)
           | Inr args \<Rightarrow>
               if dryRun ex then
                 (let dryMsg = ''[DRY-RUN] Would execute: '' @ name @ ''(''
                                 @ JSON_stringify nd args @ '')'';
                      w1 = auditLog nd \<lparr>a_tool = name, a_args = args,
                                         a_result = Some dryMsg, a_error = None\<rparr> w
                  in (Inr \<lparr>tr_tool_call_id = callId, tr_name = name, tr_content = dryMsg\<rparr>, w1))
               else
                 (case dispatch nd ex name args w of
                    (r, w1) \<Rightarrow>
                      (case (case r of
                               Inr out \<Rightarrow> Inr (out, w1)
                             | Inl err \<Rightarrow>
                                 (case message_of err of
                                    Inl e \<Rightarrow> Inl e
                                  | Inr m \<Rightarrow>
                                      Inr (''Error: '' @ (case m of None \<Rightarrow> ''undefined''
                                                           | Some msg \<Rightarrow> msg),
                                           auditLog nd \<lparr>a_tool = name, a_args = args,
                                                        a_result = None, a_error = m\<rparr> w1))) of
                         Inl e \<Rightarrow> (Inl e, w1)
                       | Inr (output, w2) \<Rightarrow>
                           (let w3 = auditLog nd \<lparr>a_tool = name, a_args = args,
                                                  a_result = Some output, a_error = None\<rparr> w2
                            in (Inr \<lparr>tr_tool_call_id = callId, tr_name = name,
                                     tr_content = output\<rparr>, w3))))))"


text \<open>
  The one case in which \<open>execute\<close> throws is a plugin handler that rejects with
  \<open>null\<close> or \<open>undefined\<close>. This predicate excludes it.
\<close>

definition no_nullish_rejection :: "executor \<Rightarrow> bool" where
  "no_nullish_rejection ex =
     (\<forall>name handler args fs.
        pluginHandlers ex name = Some handler \<longrightarrow>
          fst (handler args fs) \<noteq> Inl Rejected_null \<and>
          fst (handler args fs) \<noteq> Inl Rejected_undefined)"


section \<open>The transport client\<close>

datatype role = System | User | Assistant | Tool

record message =
  m_role :: role
  m_content :: "string option"
  m_tool_calls :: "tool_call list option"
  m_tool_call_id :: "string option"
  m_name :: "string option"

subsection \<open>The streaming parser\<close>

text \<open>
  One element of \<open>delta.tool_calls\<close>: its positional index, and the identifier,
  function name and argument fragment it may carry. The positional index is a number,
  or it is \<open>null\<close> or missing.
\<close>

record tc_delta =
  d_index :: "js_number option"
  d_id :: "string option"
  d_fname :: "string option"
  d_fargs :: "string option"

text \<open>
  The \<open>tool_calls\<close> field of a delta: missing or falsy, a truthy value that cannot be
  iterated (the \<open>for\<close> loop throws), or a sequence whose elements are objects or
  \<open>null\<close> (reading \<open>index\<close> of \<open>null\<close> throws).
\<close>

datatype tc_field = No_tool_calls | Not_iterable | Tool_calls "tc_delta option list"

record delta =
  d_content :: "string option"
  d_tool_calls :: tc_field

text \<open>
  The decoder stands for \<open>JSON.parse\<close> followed by the reads of
  \<open>json.choices?.[0]?.delta\<close> and of its fields; \<open>None\<close> means that it threw.
  The chunk sink is the caller's function; it is taken not to throw.
\<close>

type_synonym decoder = "string \<Rightarrow> delta option"

record accum =
  acc_id :: "string option"
  acc_name :: "string option"
  acc_args :: string

text \<open>
  \<open>toolCallsAccum\<close> is an object keyed by index, held here as an association list
  with distinct keys, in the order in which the keys were created. Different numbers
  make different keys.

  \<open>Object.values\<close> lists the properties of an object in the order of its own property
  keys: first the keys that are array indices, in ascending order, then the other keys
  in the order of their creation. An array index is an integer from 0 to
  \<open>2\<^sup>3\<^sup>2 - 2\<close>.
\<close>

type_synonym accums = "(js_number \<times> accum) list"

fun array_index :: "js_number \<Rightarrow> nat option" where
  "array_index (Number r) =
     (if 0 \<le> r \<and> r \<le> 4294967294 \<and> r = of_int \<lfloor>r\<rfloor> then Some (nat \<lfloor>r\<rfloor>) else None)"
| "array_index Not_a_number = None"
| "array_index Plus_infinity = None"
| "array_index Minus_infinity = None"

definition touch :: "js_number \<Rightarrow> accums \<Rightarrow> accums" where
  "touch idx acc =
     (if map_of acc idx = None
      then acc @ [(idx, \<lparr>acc_id = None, acc_name = None, acc_args = []\<rparr>)]
      else acc)"

definition modify :: "js_number \<Rightarrow> (accum \<Rightarrow> accum) \<Rightarrow> accums \<Rightarrow> accums" where
  "modify idx f acc = map (\<lambda>(k, a). if k = idx then (k, f a) else (k, a)) acc"

definition object_values :: "accums \<Rightarrow> accum list" where
  "object_values acc =
     map snd (sort_key fst
                (List.map_filter (\<lambda>(k, a). map_option (\<lambda>n. (n, a)) (array_index k)) acc))
     @ map snd (filter (\<lambda>(k, a). array_index k = None) acc)"

text \<open>A string field passes an \<open>if (field)\<close> test when it is present and not empty.\<close>

definition given :: "string option \<Rightarrow> string option" where
  "given v = (case v of None \<Rightarrow> None | Some s \<Rightarrow> if s = [] then None else Some s)"

text \<open>\<open>tc.index ?? 0\<close>\<close>

definition index_of :: "tc_delta \<Rightarrow> js_number" where
  "index_of tc = (case d_index tc of None \<Rightarrow> Number 0 | Some i \<Rightarrow> i)"

definition feed_tc :: "tc_delta \<Rightarrow> accums \<Rightarrow> accums" where
  "feed_tc tc acc =
     (let idx = index_of tc;
          acc1 = touch idx acc;
          acc2 = (case given (d_id tc) of
                    Some i \<Rightarrow> modify idx (\<lambda>a. a\<lparr>acc_id := Some i\<rparr>) acc1
                  | None \<Rightarrow> acc1);
          acc3 = (case given (d_fname tc) of
                    Some n \<Rightarrow> modify idx (\<lambda>a. a\<lparr>acc_name := Some n\<rparr>) acc2
                  | None \<Rightarrow> acc2)
      in case given (d_fargs tc) of
           Some frag \<Rightarrow> modify idx (\<lambda>a. a\<lparr>acc_args := acc_args a @ frag\<rparr>) acc3
         | None \<Rightarrow> acc3)"

fun feed_tcs :: "tc_delta option list \<Rightarrow> accums \<Rightarrow> accums" where
  "feed_tcs [] acc = acc"
| "feed_tcs (None # rest) acc = acc"
| "feed_tcs (Some tc # rest) acc = feed_tcs rest (feed_tc tc acc)"

record stream_state =
  s_content :: string
  s_accum :: accums
  s_buffer :: string
  s_sink :: "string list"

definition init_stream :: stream_state where
  "init_stream = \<lparr>s_content = [], s_accum = [], s_buffer = [], s_sink = []\<rparr>"

definition feed_delta :: "delta \<Rightarrow> stream_state \<Rightarrow> stream_state" where
  "feed_delta d st =
     (let st1 = (case given (d_content d) of
                   Some c \<Rightarrow> st\<lparr>s_content := s_content st @ c, s_sink := s_sink st @ [c]\<rparr>
                 | None \<Rightarrow> st)
      in case d_tool_calls d of
           Tool_calls tcs \<Rightarrow> st1\<lparr>s_accum := feed_tcs tcs (s_accum st1)\<rparr>
         | _ \<Rightarrow> st1)"

definition process_line :: "decoder \<Rightarrow> stream_state \<Rightarrow> string \<Rightarrow> stream_state" where
  "process_line decode st line =
     (if startsWith line ''data: '' \<and> line \<noteq> ''data: [DONE]''
      then (case decode (drop 6 line) of None \<Rightarrow> st | Some d \<Rightarrow> feed_delta d st)
      else st)"

text \<open>
  A \<open>data\<close> event: the chunk is appended to the buffer, the buffer is split at line
  feeds, the last piece stays in the buffer and the pieces before it are processed.
\<close>

definition on_data :: "decoder \<Rightarrow> stream_state \<Rightarrow> string \<Rightarrow> stream_state" where
  "on_data decode st chunk =
     (let lines = js_split (s_buffer st @ chunk) [CHR 0x0A]
      in case lines of
           [] \<Rightarrow> st\<lparr>s_buffer := []\<rparr>
         | l # ls \<Rightarrow>
             foldl (process_line decode) (st\<lparr>s_buffer := last lines\<rparr>) (butlast lines))"

definition on_end :: "stream_state \<Rightarrow> message" where
  "on_end st =
     \<lparr>m_role = Assistant,
      m_content = (if s_content st = [] then None else Some (s_content st)),
      m_tool_calls =
        (if s_accum st \<noteq> []
         then Some (map (\<lambda>tc. \<lparr>tc_id = acc_id tc,
                                 fn_name = (case given (acc_name tc) of
                                              Some n \<Rightarrow> n
                                            | None \<Rightarrow> ''unknown''),
                                 fn_arguments = acc_args tc\<rparr>)
                      (object_values (s_accum st)))
         else None),
      m_tool_call_id = None,
      m_name = None\<rparr>"

text \<open>A response body: its chunks in arrival order, then the end of the stream or an error.\<close>

datatype stream_end = Stream_end | Stream_error thrown

definition parseStreamResponse ::
  "decoder \<Rightarrow> string list \<Rightarrow> stream_end \<Rightarrow> (thrown + message) \<times> string list" where
  "parseStreamResponse decode chunks ending =
     (let st = foldl (on_data decode) init_stream chunks
      in (case ending of Stream_end \<Rightarrow> Inr (on_end st) | Stream_error e \<Rightarrow> Inl e,
          s_sink st))"


subsection \<open>The stream as the specification describes it\<close>

text \<open>
  The specification speaks of the deltas of a response in arrival order, of the
  content fragments among them, and of tool-call fragments accumulated per index.
  These definitions say what that means for a sequence of chunks; the theorems compare
  them with the parser above. A line has arrived when its line feed has; a delta is what
  the decoder makes of an event line; a content fragment is a content field that is
  present and not empty; a tool-call fragment is an element of a \<open>tool_calls\<close> sequence
  that comes before the first \<open>null\<close> of that sequence.
\<close>

definition complete_lines :: "string list \<Rightarrow> string list" where
  "complete_lines chunks = butlast (js_split (concat chunks) [CHR 0x0A])"

definition arriving :: "decoder \<Rightarrow> string list \<Rightarrow> delta list" where
  "arriving decode chunks =
     List.map_filter
       (\<lambda>line. if startsWith line ''data: '' \<and> line \<noteq> ''data: [DONE]''
               then decode (drop 6 line) else None)
       (complete_lines chunks)"

definition content_fragments :: "delta list \<Rightarrow> string list" where
  "content_fragments ds = List.map_filter (\<lambda>d. given (d_content d)) ds"

definition tool_fragments :: "delta list \<Rightarrow> tc_delta list" where
  "tool_fragments ds =
     concat (map (\<lambda>d. case d_tool_calls d of
                         Tool_calls tcs \<Rightarrow> map the (takeWhile (\<lambda>x. x \<noteq> None) tcs)
                       | _ \<Rightarrow> []) ds)"

text \<open>
  The tool call assembled for one index: the last identifier and the last name
  supplied for it, the name \<open>unknown\<close> when none was, and its argument fragments
  concatenated in arrival order. The \<open>tool_calls\<close> array has one such entry per index
  that occurs, and is omitted when none occurs. The entries of the indices that are
  integers from 0 to 4294967294 come first, in ascending order of these indices; the
  entries of the other indices follow, in the order in which these indices first
  arrived.
\<close>

definition last_given :: "string option list \<Rightarrow> string option" where
  "last_given vs =
     (let gs = List.map_filter given vs in if gs = [] then None else Some (last gs))"

text \<open>\<open>summed\<close> is the accumulator that the fragments for one index add up to.\<close>

definition summed :: "tc_delta list \<Rightarrow> js_number \<Rightarrow> accum" where
  "summed tcs i =
     (let mine = filter (\<lambda>tc. index_of tc = i) tcs
      in \<lparr>acc_id = last_given (map d_id mine),
          acc_name = last_given (map d_fname mine),
          acc_args = concat (List.map_filter (\<lambda>tc. given (d_fargs tc)) mine)\<rparr>)"


text \<open>
  \<open>first_seen\<close> lists the different elements of a list in the order in which they first
  occur; \<open>index_order\<close> puts the indices that are integers from 0 to 4294967294 first,
  in ascending order, and leaves the others behind them as they stand.
\<close>

definition first_seen :: "'a list \<Rightarrow> 'a list" where
  "first_seen xs = rev (remdups (rev xs))"



subsection \<open>Requests and retries\<close>

text \<open>
  The configuration. The number of retries is any number, or it is missing;
  \<open>loadConfig\<close> takes it from the configuration file as it stands there, so that it may
  be a fraction, \<open>NaN\<close> or \<open>Infinity\<close>. The timeout only bounds real time and is not
  used by the model; an attempt that the watchdog aborts is a rejected \<open>fetch\<close>.
\<close>

record client_config =
  baseURL :: string
  model :: string
  apiKey :: "string option"
  timeout :: "js_number option"
  retries :: "js_number option"

record chat_options =
  o_stream :: "bool option"
  o_onChunk :: bool

text \<open>
  What one \<open>fetch\<close> produced: a rejection (an abort by the watchdog is one, with the
  name \<open>AbortError\<close>), or a response with its status, the outcome of reading it as
  text, the outcome of reading it as JSON and taking \<open>choices[0].message\<close>, and its
  body stream if it has one.
\<close>

record response =
  r_status :: nat
  r_text :: "thrown + string"
  r_message :: "thrown + string option \<times> tool_call list option"
  r_body :: "(string list \<times> stream_end) option"

datatype fetch_outcome = Fetch_rejected thrown | Fetch_response response

definition r_ok :: "response \<Rightarrow> bool" where
  "r_ok r = (200 \<le> r_status r \<and> r_status r \<le> 299)"

definition attempt_once ::
  "decoder \<Rightarrow> chat_options \<Rightarrow> fetch_outcome \<Rightarrow> (thrown + message) \<times> string list" where
  "attempt_once decode opts outcome =
     (case outcome of
        Fetch_rejected e \<Rightarrow> (Inl e, [])
      | Fetch_response r \<Rightarrow>
          if \<not> r_ok r then
            (case r_text r of
               Inl e \<Rightarrow> (Inl e, [])
             | Inr body \<Rightarrow>
                 (Inl (Thrown ''Error'' (''API Error '' @ show_nat (r_status r) @ '': '' @ body)),
                  []))
          else
            (case (if (case o_stream opts of None \<Rightarrow> False | Some b \<Rightarrow> b) \<and> o_onChunk opts
                   then r_body r else None) of
               Some (chunks, ending) \<Rightarrow> parseStreamResponse decode chunks ending
             | None \<Rightarrow>
                 (case r_message r of
                    Inl e \<Rightarrow> (Inl e, [])
                  | Inr (c, tcs) \<Rightarrow>
                      (Inr \<lparr>m_role = Assistant, m_content = c, m_tool_calls = tcs,
                            m_tool_call_id = None, m_name = None\<rparr>, []))))"

definition isRetryable :: "thrown \<Rightarrow> bool" where
  "isRetryable error =
     (err_name error = ''AbortError'' \<or>
      (err_message error \<noteq> [] \<and>
       (js_includes (err_message error) ''ECONNRESET'' \<or>
        js_includes (err_message error) ''ETIMEDOUT'' \<or>
        js_includes (err_message error) ''fetch failed'' \<or>
        startsWith (err_message error) ''API Error 5'')))"

text \<open>
  What a call of \<open>chat\<close> did: the number of requests sent, the delays waited in
  milliseconds and the fragments handed to the chunk sink, each oldest first.
\<close>

record chat_trace =
  t_requests :: nat
  t_delays :: "nat list"
  t_chunks :: "string list"

text \<open>
  The comparisons \<open>attempt <= maxRetries\<close> and \<open>attempt < maxRetries\<close> of the loop
  counter with the number of retries.
\<close>

fun at_most :: "nat \<Rightarrow> js_number \<Rightarrow> bool" where
  "at_most n (Number r) = (real n \<le> r)"
| "at_most n Not_a_number = False"
| "at_most n Plus_infinity = True"
| "at_most n Minus_infinity = False"

fun below :: "nat \<Rightarrow> js_number \<Rightarrow> bool" where
  "below n (Number r) = (real n < r)"
| "below n Not_a_number = False"
| "below n Plus_infinity = True"
| "below n Minus_infinity = False"

text \<open>
  The retry loop, from the attempt \<open>attempt\<close> on. \<open>net k\<close> is what the \<open>fetch\<close> of the
  attempt \<open>k\<close> produces. The loop need not end when the number of retries is
  \<open>Infinity\<close>; the result is \<open>None\<close> when it does not. The loop counter is a natural
  number: a JavaScript number counts exactly up to \<open>2\<^sup>5\<^sup>3\<close>, and with a wait of up
  to ten seconds before every retry no run comes near that many attempts.
\<close>

partial_function (option) chat_from ::
  "decoder \<Rightarrow> chat_options \<Rightarrow> js_number \<Rightarrow> (nat \<Rightarrow> fetch_outcome) \<Rightarrow> nat \<Rightarrow> chat_trace
     \<Rightarrow> ((thrown + message) \<times> chat_trace) option" where
  "chat_from decode opts maxRetries net attempt tr =
     (if at_most attempt maxRetries then
        (case attempt_once decode opts (net attempt) of
           (r, chunks) \<Rightarrow>
             (let tr1 = tr\<lparr>t_requests := Suc (t_requests tr), t_chunks := t_chunks tr @ chunks\<rparr>
              in case r of
                   Inr msg \<Rightarrow> Some (Inr msg, tr1)
                 | Inl error \<Rightarrow>
                     if below attempt maxRetries \<and> isRetryable error
                     then chat_from decode opts maxRetries net (Suc attempt)
                            (tr1\<lparr>t_delays := t_delays tr1 @ [min (1000 * 2 ^ attempt) 10000]\<rparr>)
                     else Some (Inl error, tr1)))
      else Some (Inl (Thrown ''Error'' ''LLM request failed after retries''), tr))"

definition llm_chat ::
  "client_config \<Rightarrow> decoder \<Rightarrow> chat_options \<Rightarrow> (nat \<Rightarrow> fetch_outcome)
     \<Rightarrow> ((thrown + message) \<times> chat_trace) option" where
  "llm_chat config decode opts net =
     chat_from decode opts (case retries config of None \<Rightarrow> Number 3 | Some n \<Rightarrow> n) net 0
       \<lparr>t_requests = 0, t_delays = [], t_chunks = []\<rparr>"

text \<open>
  The words of the specification about retries: an attempt fails retryably when it
  fails with an error that is classified as retryable, and the delay before the retry
  that follows the attempt \<open>attempt\<close> is \<open>min(1000 * 2^attempt, 10000)\<close> milliseconds.
\<close>

definition retryable_failure :: "decoder \<Rightarrow> chat_options \<Rightarrow> fetch_outcome \<Rightarrow> bool" where
  "retryable_failure decode opts outcome =
     (case fst (attempt_once decode opts outcome) of
        Inl e \<Rightarrow> isRetryable e
      | Inr msg \<Rightarrow> False)"

definition backoff :: "nat \<Rightarrow> nat" where
  "backoff attempt = min (1000 * 2 ^ attempt) 10000"


section \<open>The agent\<close>

text \<open>
  The agent is given the transport client and the tool executor, each acting on a
  state of its own. \<open>run_tools\<close> is the \<open>for\<close> loop over the tool calls of one
  response, \<open>chat_steps\<close> the \<open>while\<close> loop. The outcome of \<open>chat\<close> is \<open>Inl\<close> when it
  throws, \<open>Inr (Some text)\<close> when it returns text and \<open>Inr None\<close> when it ends without
  a return value.
\<close>

definition tool_message :: "tool_result \<Rightarrow> message" where
  "tool_message result =
     \<lparr>m_role = Tool, m_content = Some (tr_content result), m_tool_calls = None,
      m_tool_call_id = Some (tr_tool_call_id result), m_name = Some (tr_name result)\<rparr>"

fun run_tools ::
  "(tool_call \<Rightarrow> 'w \<Rightarrow> (thrown + tool_result) \<times> 'w) \<Rightarrow> tool_call list \<Rightarrow> message list \<Rightarrow> 'w
     \<Rightarrow> thrown option \<times> message list \<times> 'w" where
  "run_tools exec [] history w = (None, history, w)"
| "run_tools exec (toolCall # rest) history w =
     (case exec toolCall w of
        (Inl e, w1) \<Rightarrow> (Some e, history, w1)
      | (Inr result, w1) \<Rightarrow> run_tools exec rest (history @ [tool_message result]) w1)"

definition maxSteps :: nat where
  "maxSteps = 10"

function chat_steps ::
  "(message list \<Rightarrow> 'l \<Rightarrow> (thrown + message) \<times> 'l)
     \<Rightarrow> (tool_call \<Rightarrow> 'w \<Rightarrow> (thrown + tool_result) \<times> 'w)
     \<Rightarrow> nat \<Rightarrow> message list \<Rightarrow> 'l \<Rightarrow> 'w
     \<Rightarrow> (thrown + string option) \<times> message list \<times> 'l \<times> 'w" where
  "chat_steps llm exec currentStep history l w =
     (if currentStep < maxSteps then
        (case llm history l of
           (Inl e, l1) \<Rightarrow> (Inl e, history, l1, w)
         | (Inr response, l1) \<Rightarrow>
             (case m_tool_calls response of
                None \<Rightarrow>
                  (Inr (Some (case m_content response of None \<Rightarrow> [] | Some c \<Rightarrow> c)),
                   history @ [response], l1, w)
              | Some calls \<Rightarrow>
                  if calls \<noteq> [] then
                    (case run_tools exec calls (history @ [response]) w of
                       (Some e, h2, w2) \<Rightarrow> (Inl e, h2, l1, w2)
                     | (None, h2, w2) \<Rightarrow> chat_steps llm exec (Suc currentStep) h2 l1 w2)
                  else
                    (Inr (Some (case m_content response of None \<Rightarrow> [] | Some c \<Rightarrow> c)),
                     history @ [response], l1, w)))
      else (Inr None, history, l, w))"
  by pat_completeness auto
termination
  by (relation "measure (\<lambda>(llm, exec, currentStep, history, l, w). maxSteps - currentStep)")
     auto

declare chat_steps.simps [simp del]

definition user_message :: "string \<Rightarrow> message" where
  "user_message words =
     \<lparr>m_role = User, m_content = Some words, m_tool_calls = None, m_tool_call_id = None,
      m_name = None\<rparr>"

definition chat ::
  "(message list \<Rightarrow> 'l \<Rightarrow> (thrown + message) \<times> 'l)
     \<Rightarrow> (tool_call \<Rightarrow> 'w \<Rightarrow> (thrown + tool_result) \<times> 'w)
     \<Rightarrow> string \<Rightarrow> message list \<Rightarrow> 'l \<Rightarrow> 'w
     \<Rightarrow> (thrown + string option) \<times> message list \<times> 'l \<times> 'w" where
  "chat llm exec userInput history l w =
     chat_steps llm exec 0 (history @ [user_message userInput]) l w"


section \<open>A concrete runtime\<close>

text \<open>
  A runtime, an executor and a world on which the model can be run: paths resolve by
  joining, writes succeed, the shell prints \<open>done\<close>, the user answers \<open>n\<close>, the random
  suffix is \<open>i\<close> (what \<open>Math.random() = 0.5\<close> gives), and the audit sink works.
\<close>

definition demo_node :: node where
  "demo_node =
     \<lparr>JSON_parse = (\<lambda>s. if s = ''{}'' then Inr (JObj [])
                          else Inl (Thrown ''SyntaxError'' ''Unexpected token'')),
      JSON_stringify = (\<lambda>j. ''{}''),
      String_of = (\<lambda>j. ''[object Object]''),
      path_resolve = (\<lambda>root p. root @ ''/'' @ p),
      read_failure = (\<lambda>p. ''ENOENT: no such file or directory''),
      write_failure = (\<lambda>p. None),
      exec_shell = (\<lambda>c fs. (Exec_ok ''done'' [], fs)),
      question = (\<lambda>k. ''n''),
      random_suffix = (\<lambda>k. ''i''),
      now = (\<lambda>k. ''2024-01-01T00:00:00.000Z''),
      process_cwd = ''/work'',
      append_fails = (\<lambda>k. False),
      builtin = (\<lambda>m vs fs. (Inr ''ok'', fs))\<rparr>"

definition demo_executor :: executor where
  "demo_executor =
     new_executor demo_node
       \<lparr>o_autoApproveCommands = None, o_pluginHandlers = None, o_dryRun = None,
        o_allowlistCommands = None\<rparr>"

definition demo_world :: world where
  "demo_world =
     \<lparr>w_files = [''/work/f.txt'' \<mapsto> ''a a a''], w_shell = [], w_asked = 0, w_drawn = 0,
      w_auditPath = Some ''/work/audit.log'', w_emitted = [], w_persisted = []\<rparr>"


text \<open>Runtimes that differ from \<open>demo_node\<close> in one respect, and tool calls to run on them.\<close>

definition parsing :: "json \<Rightarrow> node" where
  "parsing args = demo_node\<lparr>JSON_parse := (\<lambda>s. Inr args)\<rparr>"


definition shell_call :: tool_call where
  "shell_call = \<lparr>tc_id = Some ''call_1'', fn_name = ''run_command'', fn_arguments = ''{...}''\<rparr>"

definition git_only :: executor_options where
  "git_only =
     \<lparr>o_autoApproveCommands = Some True, o_pluginHandlers = None, o_dryRun = None,
      o_allowlistCommands = Some [''Git'']\<rparr>"



text \<open>The command \<open>git status\<close> with a no-break space before it and a tab in it.\<close>

definition padded_command :: string where
  "padded_command = [CHR 0xA0] @ ''git'' @ [CHR 0x09] @ ''status''"

definition failing_read :: node where
  "failing_read =
     (parsing (JObj [(''path'', JStr ''missing.txt'')]))
       \<lparr>builtin := (\<lambda>m vs fs. (Inl (Thrown ''Error'' ''ENOENT: no such file or directory''), fs))\<rparr>"

definition read_call :: tool_call where
  "read_call = \<lparr>tc_id = Some ''call_1'', fn_name = ''read_file'', fn_arguments = ''{...}''\<rparr>"

definition unknown_call :: tool_call where
  "unknown_call = \<lparr>tc_id = Some ''call_1'', fn_name = ''frobnicate'', fn_arguments = ''{}''\<rparr>"

definition garbled_call :: tool_call where
  "garbled_call = \<lparr>tc_id = Some ''call_1'', fn_name = ''read_file'', fn_arguments = ''{oops''\<rparr>"

definition anonymous_call :: tool_call where
  "anonymous_call = \<lparr>tc_id = None, fn_name = ''read_file'', fn_arguments = ''{}''\<rparr>"

definition named_call :: tool_call where
  "named_call = \<lparr>tc_id = Some ''call_i'', fn_name = ''read_file'', fn_arguments = ''{}''\<rparr>"

text \<open>
  An executor with one plugin tool, \<open>lookup\<close>, whose handler rejects with \<open>null\<close>, as
  \<open>async () => { throw null }\<close> and \<open>() => Promise.reject(null)\<close> do.
\<close>

definition rejecting_null :: handler where
  "rejecting_null args fs = (Inl Rejected_null, fs)"

definition with_plugin :: executor where
  "with_plugin =
     new_executor demo_node
       \<lparr>o_autoApproveCommands = None, o_pluginHandlers = Some [''lookup'' \<mapsto> rejecting_null],
        o_dryRun = None, o_allowlistCommands = None\<rparr>"

definition plugin_call :: tool_call where
  "plugin_call = \<lparr>tc_id = Some ''call_1'', fn_name = ''lookup'', fn_arguments = ''{}''\<rparr>"

text \<open>Scripted models to run the agent on.\<close>

definition calling :: "tool_call list \<Rightarrow> message" where
  "calling calls =
     \<lparr>m_role = Assistant, m_content = None, m_tool_calls = Some calls, m_tool_call_id = None,
      m_name = None\<rparr>"

definition saying :: "string \<Rightarrow> message" where
  "saying words =
     \<lparr>m_role = Assistant, m_content = Some words, m_tool_calls = None, m_tool_call_id = None,
      m_name = None\<rparr>"



definition scripted :: "message \<Rightarrow> message list \<Rightarrow> nat \<Rightarrow> (thrown + message) \<times> nat" where
  "scripted first history n = (if n = 0 then Inr first else Inr (saying ''done''), Suc n)"

text \<open>A server that answers 500 once and then 200, and a client with default settings.\<close>

definition server_error :: response where
  "server_error =
     \<lparr>r_status = 500, r_text = Inr ''overloaded'',
      r_message = Inl (Thrown ''SyntaxError'' ''Unexpected token''), r_body = None\<rparr>"

definition success :: response where
  "success =
     \<lparr>r_status = 200, r_text = Inr ''{...}'', r_message = Inr (Some ''hello'', None),
      r_body = None\<rparr>"

definition flaky :: "nat \<Rightarrow> fetch_outcome" where
  "flaky attempt = (if attempt = 0 then Fetch_response server_error else Fetch_response success)"

definition demo_config :: client_config where
  "demo_config =
     \<lparr>baseURL = ''http://localhost:5000/v1'', model = ''qwen2.5-coder:7b'', apiKey = None,
      timeout = None, retries = None\<rparr>"

definition plain :: chat_options where
  "plain = \<lparr>o_stream = None, o_onChunk = False\<rparr>"

definition no_decoder :: decoder where
  "no_decoder payload = None"







text \<open>A server that is down, and one that rejects the request.\<close>

definition not_found :: response where
  "not_found =
     \<lparr>r_status = 404, r_text = Inr ''no such model'',
      r_message = Inl (Thrown ''SyntaxError'' ''Unexpected token''), r_body = None\<rparr>"

definition down :: "nat \<Rightarrow> fetch_outcome" where
  "down attempt = Fetch_response server_error"

definition rejecting :: "nat \<Rightarrow> fetch_outcome" where
  "rejecting attempt = Fetch_response not_found"

text \<open>
  A server that answers every request with the status 400 and the text
  \<open>fetch failed\<close>, and a client that is configured with two and a half retries.
\<close>

definition bad_request :: response where
  "bad_request =
     \<lparr>r_status = 400, r_text = Inr ''fetch failed'',
      r_message = Inl (Thrown ''SyntaxError'' ''Unexpected token''), r_body = None\<rparr>"

definition refusing :: "nat \<Rightarrow> fetch_outcome" where
  "refusing attempt = Fetch_response bad_request"

definition half_config :: client_config where
  "half_config = demo_config\<lparr>retries := Some (Number (5 / 2))\<rparr>"

section \<open>Properties of the tool executor\<close>

subsection \<open>What the steps of \<open>execute\<close> leave unchanged\<close>

lemma auditLog_fields [simp]:
  "w_shell (auditLog nd e w) = w_shell w"
  "w_files (auditLog nd e w) = w_files w"
  "w_asked (auditLog nd e w) = w_asked w"
  "w_drawn (auditLog nd e w) = w_drawn w"
  "w_auditPath (auditLog nd e w) = w_auditPath w"
  by (auto simp: auditLog_def appendFileSync_def Let_def split: option.splits)

lemma run_shell_fields [simp]:
  "w_shell (snd (run_shell nd c w)) = w_shell w @ [c]"
  "w_asked (snd (run_shell nd c w)) = w_asked w"
  "w_drawn (snd (run_shell nd c w)) = w_drawn w"
  "w_emitted (snd (run_shell nd c w)) = w_emitted w"
  "w_persisted (snd (run_shell nd c w)) = w_persisted w"
  "w_auditPath (snd (run_shell nd c w)) = w_auditPath w"
  by (auto simp: run_shell_def execAsync_def split: prod.splits exec_outcome.splits)

lemma callId_fields [simp]:
  "w_shell (snd (callId_of nd call w)) = w_shell w"
  "w_files (snd (callId_of nd call w)) = w_files w"
  "w_asked (snd (callId_of nd call w)) = w_asked w"
  "w_emitted (snd (callId_of nd call w)) = w_emitted w"
  "w_persisted (snd (callId_of nd call w)) = w_persisted w"
  "w_auditPath (snd (callId_of nd call w)) = w_auditPath w"
  by (auto simp: callId_of_def split: option.splits)

lemma external_fields [simp]:
  "w_drawn (snd (external nd m vs w)) = w_drawn w"
  "w_emitted (snd (external nd m vs w)) = w_emitted w"
  "w_persisted (snd (external nd m vs w)) = w_persisted w"
  "w_auditPath (snd (external nd m vs w)) = w_auditPath w"
  by (auto simp: external_def split: prod.splits)

lemma editFile_fields [simp]:
  "w_drawn (snd (editFile nd ex p old new w)) = w_drawn w"
  "w_emitted (snd (editFile nd ex p old new w)) = w_emitted w"
  "w_persisted (snd (editFile nd ex p old new w)) = w_persisted w"
  "w_auditPath (snd (editFile nd ex p old new w)) = w_auditPath w"
  by (auto simp: editFile_def fs_writeFile_def Let_def split: sum.splits option.splits)

lemma runCommand_cases:
  "runCommand nd ex command w =
     (if autoApproveCommands ex then
        (if allowlistCommands ex = {} \<or> cmdBase_of command \<in> allowlistCommands ex
         then run_shell nd command w
         else (''Command '' @ [CHR 0x22] @ cmdBase_of command @ [CHR 0x22]
               @ '' not in allowlist. Use --allow '' @ [CHR 0x22] @ ''cmd1,cmd2''
               @ [CHR 0x22] @ '' to add.'', w))
      else if toLowerCase (question nd (w_asked w)) = ''y''
        then run_shell nd command (w\<lparr>w_asked := Suc (w_asked w)\<rparr>)
        else (''User denied command execution.'', w\<lparr>w_asked := Suc (w_asked w)\<rparr>))"
  by (auto simp: runCommand_def Let_def)

lemma runCommand_fields [simp]:
  "w_drawn (snd (runCommand nd ex c w)) = w_drawn w"
  "w_emitted (snd (runCommand nd ex c w)) = w_emitted w"
  "w_persisted (snd (runCommand nd ex c w)) = w_persisted w"
  "w_auditPath (snd (runCommand nd ex c w)) = w_auditPath w"
  by (simp_all add: runCommand_cases)

lemma runCommand_arg_fields [simp]:
  "w_drawn (snd (runCommand_arg nd ex v w)) = w_drawn w"
  "w_emitted (snd (runCommand_arg nd ex v w)) = w_emitted w"
  "w_persisted (snd (runCommand_arg nd ex v w)) = w_persisted w"
  "w_auditPath (snd (runCommand_arg nd ex v w)) = w_auditPath w"
  by (auto simp: runCommand_arg_def split_beta split: option.splits json.splits)

lemma reading_fields:
  "f (snd body) = f w \<Longrightarrow> f (snd (reading args k w body)) = f w"
  by (cases body; cases "fst body") (auto simp: reading_def)

lemma reading_rejection:
  "fst (reading args k w body) \<noteq> Inl Rejected_null \<and>
   fst (reading args k w body) \<noteq> Inl Rejected_undefined"
  by (cases body; cases "fst body") (auto simp: reading_def)

lemma dispatch_fields [simp]:
  "w_drawn (snd (dispatch nd ex name args w)) = w_drawn w"
  "w_emitted (snd (dispatch nd ex name args w)) = w_emitted w"
  "w_persisted (snd (dispatch nd ex name args w)) = w_persisted w"
  "w_auditPath (snd (dispatch nd ex name args w)) = w_auditPath w"
  by (auto simp: dispatch_def reading_fields split_beta split: option.splits)

text \<open>
  Only a plugin handler makes the \<open>switch\<close> throw \<open>null\<close> or \<open>undefined\<close>.
\<close>

lemma dispatch_rejection:
  assumes "no_nullish_rejection ex"
  shows "fst (dispatch nd ex name args w) \<noteq> Inl Rejected_null \<and>
         fst (dispatch nd ex name args w) \<noteq> Inl Rejected_undefined"
  using assms
  by (auto simp: dispatch_def reading_rejection no_nullish_rejection_def split_beta
      split: option.splits)

lemma message_of_Inr:
  assumes "r \<noteq> Rejected_null" and "r \<noteq> Rejected_undefined"
  shows "\<exists>m. message_of r = Inr m"
  using assms by (cases r) auto

text \<open>
  \<open>execute\<close> returns, with the identifier and the name of the call, unless a plugin
  handler rejects with \<open>null\<close> or \<open>undefined\<close>.
\<close>

lemma execute_Inr:
  assumes "no_nullish_rejection ex"
  shows "\<exists>c w'. execute nd ex call w =
      (Inr \<lparr>tr_tool_call_id = fst (callId_of nd call w), tr_name = fn_name call,
            tr_content = c\<rparr>, w')"
proof -
  obtain callId w1 where id: "callId_of nd call w = (callId, w1)"
    by (cases "callId_of nd call w")
  show ?thesis
  proof (cases "JSON_parse nd (fn_arguments call)")
    case (Inl e)
    then show ?thesis by (simp add: execute_def id)
  next
    case (Inr args)
    obtain r w2 where d: "dispatch nd ex (fn_name call) args w1 = (r, w2)"
      by (cases "dispatch nd ex (fn_name call) args w1")
    show ?thesis
    proof (cases r)
      case (Inl err)
      with dispatch_rejection[OF assms, of nd "fn_name call" args w1] d
      have "err \<noteq> Rejected_null" "err \<noteq> Rejected_undefined" by auto
      from message_of_Inr[OF this] obtain m where "message_of err = Inr m" ..
      with Inl Inr d show ?thesis by (simp add: execute_def id Let_def)
    next
      case (Inr out)
      with \<open>JSON_parse nd (fn_arguments call) = Inr args\<close> d show ?thesis
        by (simp add: execute_def id Let_def)
    qed
  qed
qed

lemma no_plugins [simp]: "pluginHandlers ex = Map.empty \<Longrightarrow> no_nullish_rejection ex"
  by (simp add: no_nullish_rejection_def)

lemma dispatch_unknown:
  assumes "name \<notin> set tool_names" and "pluginHandlers ex name = None"
  shows "dispatch nd ex name args w = (Inr (''Unknown tool: '' @ name), w)"
  using assms unfolding dispatch_def tool_names_def by simp

subsection \<open>Editing a file\<close>

text \<open>
  What a successful edit does: the reported number is the number of pieces of the
  content minus one, and the new content is the result of \<open>replace\<close>.
\<close>

lemma editFile_success:
  assumes "w_files w (path_resolve nd (workspaceRoot ex) p) = Some content"
    and "js_includes content old"
    and "write_failure nd (path_resolve nd (workspaceRoot ex) p) = None"
  shows "editFile nd ex (Some (JStr p)) (Some (JStr old)) (Some (JStr new)) w =
           (Inr (''Successfully edited '' @ p @ ''. Replaced ''
                 @ show_int (int (length (js_split content old)) - 1) @ '' occurrence(s).''),
            w\<lparr>w_files := (w_files w)(path_resolve nd (workspaceRoot ex) p \<mapsto>
                              js_replace content old new)\<rparr>)"
  using assms
  by (simp add: editFile_def resolvePath_def fs_readFile_def fs_writeFile_def to_String_def Let_def)

text \<open>
  Claim C1. On success \<open>edit_file\<close> is to replace every occurrence of the old text and
  to report how many it replaced. On a file holding \<open>a a a\<close>, replacing \<open>a\<close> by \<open>b\<close>,
  the code reports three occurrences replaced and writes \<open>b a a\<close>: only the first
  occurrence is replaced, because \<open>String.prototype.replace\<close> with a string pattern
  stops after the first match.
\<close>

theorem editFile_replaces_first_only:
  "editFile demo_node demo_executor (Some (JStr ''f.txt'')) (Some (JStr ''a''))
     (Some (JStr ''b'')) demo_world
   = (Inr ''Successfully edited f.txt. Replaced 3 occurrence(s).'',
      demo_world\<lparr>w_files := [''/work/f.txt'' \<mapsto> ''b a a'']\<rparr>)"
  by (simp add: editFile_def resolvePath_def demo_node_def demo_executor_def new_executor_def
      demo_world_def fs_readFile_def fs_writeFile_def js_includes_def to_String_def js_split_def
      split_from.simps js_replace_def show_int_def show_nat.simps digit_char_def)

subsection \<open>Approval of shell commands\<close>





text \<open>Lower-casing turns no character into white space and no white space into a character.\<close>

lemma is_space_lower_char [simp]: "is_space (lower_char c) = is_space c"
  by (simp add: lower_char_def upper_case_def lower_case_def is_space_def split: if_splits)












text \<open>With the allowlist \<open>Git\<close>, the command \<open>rm -rf /\<close> is refused and nothing else happens.\<close>

lemma allowlist_refuses:
  "execute (parsing (JObj [(''command'', JStr ''rm -rf /'')]))
       (new_executor (parsing (JObj [(''command'', JStr ''rm -rf /'')])) git_only)
       shell_call (demo_world\<lparr>w_auditPath := None\<rparr>)
   = (Inr \<lparr>tr_tool_call_id = ''call_1'', tr_name = ''run_command'',
           tr_content = ''Command '' @ [CHR 0x22] @ ''rm'' @ [CHR 0x22]
                  @ '' not in allowlist. Use --allow '' @ [CHR 0x22] @ ''cmd1,cmd2''
                  @ [CHR 0x22] @ '' to add.''\<rparr>, demo_world\<lparr>w_auditPath := None\<rparr>)"
  by (simp add: demo_node_def demo_world_def parsing_def shell_call_def
      git_only_def new_executor_def cmdBase_of_def split_ws_def trim_def is_space_def
      toLowerCase_def lower_char_def upper_case_def lower_case_def execute_def callId_of_def
      dispatch_def reading_def runCommand_arg_def runCommand_def auditLog_def Let_def)

text \<open>
  A no-break space before the command and a tab after its first token are white space:
  with the allowlist \<open>Git\<close> the command is handed to the shell as it is.
\<close>

lemma padded_command_runs:
  "w_shell (snd (execute (parsing (JObj [(''command'', JStr padded_command)]))
       (new_executor (parsing (JObj [(''command'', JStr padded_command)])) git_only)
       shell_call demo_world)) = [padded_command]"
  by (simp add: demo_node_def demo_world_def parsing_def shell_call_def padded_command_def
      git_only_def new_executor_def cmdBase_of_def split_ws_def trim_def is_space_def
      toLowerCase_def lower_char_def upper_case_def lower_case_def execute_def callId_of_def
      dispatch_def reading_def runCommand_arg_def runCommand_def run_shell_def execAsync_def
      auditLog_def appendFileSync_def Let_def)

subsection \<open>The boundary of \<open>execute\<close>\<close>

text \<open>
  \<open>execute\<close> returns a tool result unless a plugin handler rejects with \<open>null\<close> or
  \<open>undefined\<close>. When the arguments do not decode, the content is the decoding error's
  text; when the name is no case of the switch and no plugin handler is registered for
  it, the content says that the tool is unknown; when the dispatched tool throws a
  value that has a message, the content is that message.
\<close>

lemma execute_returns:
  assumes "no_nullish_rejection ex"
  shows "\<exists>res w'. execute nd ex call w = (Inr res, w') \<and>
     tr_name res = fn_name call \<and>
     (\<forall>e. JSON_parse nd (fn_arguments call) = Inl e \<longrightarrow>
        tr_content res = ''Error parsing arguments: '' @ error_toString e) \<and>
     (\<forall>args. JSON_parse nd (fn_arguments call) = Inr args \<and> \<not> dryRun ex \<longrightarrow>
        (fn_name call \<notin> set tool_names \<and> pluginHandlers ex (fn_name call) = None \<longrightarrow>
           tr_content res = ''Unknown tool: '' @ fn_name call) \<and>
        (\<forall>e w1. dispatch nd ex (fn_name call) args (snd (callId_of nd call w))
                   = (Inl (Rejected e), w1) \<longrightarrow>
           tr_content res = ''Error: '' @ err_message e))"
proof -
  from execute_Inr[OF assms, of nd call w] obtain c w' where
    e: "execute nd ex call w =
      (Inr \<lparr>tr_tool_call_id = fst (callId_of nd call w), tr_name = fn_name call,
            tr_content = c\<rparr>, w')" by blast
  have 1: "c = ''Error parsing arguments: '' @ error_toString err"
    if "JSON_parse nd (fn_arguments call) = Inl err" for err
    using that e by (auto simp: execute_def Let_def split: prod.splits)
  have 2: "c = ''Unknown tool: '' @ fn_name call"
    if "JSON_parse nd (fn_arguments call) = Inr args" "\<not> dryRun ex"
       "fn_name call \<notin> set tool_names" "pluginHandlers ex (fn_name call) = None" for args
    using that e by (auto simp: execute_def Let_def dispatch_unknown split: prod.splits)
  have 3: "c = ''Error: '' @ err_message err"
    if "JSON_parse nd (fn_arguments call) = Inr args" "\<not> dryRun ex"
       "dispatch nd ex (fn_name call) args (snd (callId_of nd call w)) = (Inl (Rejected err), w1)"
    for args err w1
    using that e by (auto simp: execute_def Let_def split: prod.splits)
  from e 1 2 3 show ?thesis by auto
qed

text \<open>
  Claim C6. \<open>execute\<close> is never to throw: whatever the tool throws is to come back as
  a tool result with an error text. The plugin tool \<open>lookup\<close> rejects with \<open>null\<close>; the
  \<open>catch\<close> block of \<open>execute\<close> reads \<open>err.message\<close> of it, the read throws a
  \<open>TypeError\<close>, and \<open>execute\<close> throws that error instead of returning a result.
\<close>

theorem execute_throws_on_null_rejection:
  "execute demo_node with_plugin plugin_call demo_world =
     (Inl (Thrown ''TypeError'' ''Cannot read properties of null (reading 'message')''),
      demo_world)"
  by (simp add: demo_node_def with_plugin_def new_executor_def plugin_call_def rejecting_null_def
      demo_world_def execute_def callId_of_def dispatch_def type_error_def Let_def)

subsection \<open>Audit records\<close>

lemma auditLog_emitted:
  assumes "w_auditPath w = Some p" and "p \<noteq> []"
  shows "w_emitted (auditLog nd e w) =
           w_emitted w @ [\<lparr>r_ts = now nd (length (w_emitted w)), r_cwd = process_cwd nd,
                            r_entry = e\<rparr>]"
  using assms by (simp add: auditLog_def appendFileSync_def Let_def)

lemma auditLog_off:
  "w_auditPath w = None \<Longrightarrow> auditLog nd e w = w"
  by (simp add: auditLog_def)

text \<open>
  With an audit path set, a call whose tool returns emits one record, and a call
  whose tool throws emits two, or none when \<open>execute\<close> throws.
\<close>

lemma execute_emits:
  assumes "w_auditPath w = Some p" and "p \<noteq> []"
    and "JSON_parse nd (fn_arguments call) = Inr args" and "\<not> dryRun ex"
  shows "length (w_emitted (snd (execute nd ex call w))) =
           length (w_emitted w)
           + (case fst (dispatch nd ex (fn_name call) args (snd (callId_of nd call w))) of
                Inl e \<Rightarrow> (case message_of e of Inl t \<Rightarrow> 0 | Inr m \<Rightarrow> 2)
              | Inr out \<Rightarrow> 1)"
proof -
  let ?d = "dispatch nd ex (fn_name call) args (snd (callId_of nd call w))"
  have a: "w_auditPath (snd ?d) = Some p" "w_emitted (snd ?d) = w_emitted w"
    using assms(1) by simp_all
  show ?thesis
    using assms a
    by (cases ?d; cases "fst ?d")
       (auto simp: execute_def Let_def split_beta auditLog_emitted[where p = p]
          split: sum.splits)
qed

text \<open>
  Claim C7. One audit record is to be emitted per executed call, whether the tool
  returns or throws. When \<open>read_file\<close> throws on a missing file, the code hands two
  records to the audit sink: the \<open>catch\<close> block logs the error, and the statement after
  the \<open>try\<close> logs the result text once more.
\<close>

theorem execute_audits_a_throw_twice:
  "map r_entry (w_emitted (snd (execute failing_read demo_executor read_call demo_world))) =
     [\<lparr>a_tool = ''read_file'', a_args = JObj [(''path'', JStr ''missing.txt'')],
       a_result = None, a_error = Some ''ENOENT: no such file or directory''\<rparr>,
      \<lparr>a_tool = ''read_file'', a_args = JObj [(''path'', JStr ''missing.txt'')],
       a_result = Some ''Error: ENOENT: no such file or directory'', a_error = None\<rparr>]"
  by (simp add: failing_read_def parsing_def demo_node_def demo_executor_def new_executor_def
      read_call_def demo_world_def execute_def callId_of_def dispatch_def reading_def
      external_def auditLog_def appendFileSync_def Let_def)

subsection \<open>Generated call identifiers\<close>





section \<open>Properties of the agent\<close>













lemmas run_agent = demo_node_def demo_executor_def new_executor_def anonymous_call_def
      named_call_def demo_world_def execute_def callId_of_def dispatch_def reading_def
      external_def auditLog_def appendFileSync_def Let_def chat_def chat_steps.simps maxSteps_def
      scripted_def calling_def saying_def user_message_def tool_message_def



text \<open>
  A generated identifier may also be one that the assistant message contains: for the
  calls \<open>named_call\<close> and \<open>anonymous_call\<close> both tool messages carry \<open>call_i\<close>.
\<close>

lemma generated_id_in_message:
  "fst (snd (chat (scripted (calling [named_call, anonymous_call]))
               (execute demo_node demo_executor) ''hi'' [] 0 demo_world))
     = [user_message ''hi'', calling [named_call, anonymous_call],
        \<lparr>m_role = Tool, m_content = Some ''ok'', m_tool_calls = None,
         m_tool_call_id = Some ''call_i'', m_name = Some ''read_file''\<rparr>,
        \<lparr>m_role = Tool, m_content = Some ''ok'', m_tool_calls = None,
         m_tool_call_id = Some ''call_i'', m_name = Some ''read_file''\<rparr>,
        saying ''done'']"
  by (simp add: run_agent)


section \<open>Properties of the transport client\<close>

subsection \<open>Retries\<close>

lemma below_at_most: "below n N \<Longrightarrow> at_most n N"
  by (cases N) auto

lemma at_most_less: "at_most j N \<Longrightarrow> i < j \<Longrightarrow> below i N"
  by (cases N) auto

lemma at_most_le: "at_most j N \<Longrightarrow> i \<le> j \<Longrightarrow> at_most i N"
  by (cases N) auto

lemma below_unbounded:
  assumes "\<forall>j. below j N"
  shows "N = Plus_infinity"
proof (cases N)
  case (Number r)
  obtain n :: nat where "r < real n" using reals_Archimedean2 by blast
  with assms[rule_format, of n] Number show ?thesis by simp
next
  case Not_a_number
  with assms[rule_format, of 0] show ?thesis by simp
next
  case Plus_infinity
  then show ?thesis .
next
  case Minus_infinity
  with assms[rule_format, of 0] show ?thesis by simp
qed

lemma retryable_failure_cases:
  "retryable_failure decode opts outcome \<longleftrightarrow>
     (\<exists>e. fst (attempt_once decode opts outcome) = Inl e \<and> isRetryable e)"
  by (cases "fst (attempt_once decode opts outcome)") (simp_all add: retryable_failure_def)

lemma chat_from_retry:
  assumes "below a N" and "retryable_failure decode opts (net a)"
  shows "chat_from decode opts N net a tr =
           chat_from decode opts N net (Suc a)
             (tr\<lparr>t_requests := Suc (t_requests tr),
                 t_chunks := t_chunks tr @ snd (attempt_once decode opts (net a)),
                 t_delays := t_delays tr @ [backoff a]\<rparr>)"
proof -
  from assms(2) obtain e where "fst (attempt_once decode opts (net a)) = Inl e" "isRetryable e"
    by (auto simp: retryable_failure_cases)
  then obtain chunks where ao: "attempt_once decode opts (net a) = (Inl e, chunks)"
    and e: "isRetryable e"
    by (cases "attempt_once decode opts (net a)") auto
  show ?thesis
    by (subst chat_from.simps)
       (simp add: ao e assms(1) below_at_most[OF assms(1)] backoff_def Let_def)
qed

lemma chat_from_stop:
  assumes "at_most a N" and "\<not> (below a N \<and> retryable_failure decode opts (net a))"
  shows "chat_from decode opts N net a tr =
           Some (fst (attempt_once decode opts (net a)),
                 tr\<lparr>t_requests := Suc (t_requests tr),
                     t_chunks := t_chunks tr @ snd (attempt_once decode opts (net a))\<rparr>)"
proof -
  obtain r chunks where ao: "attempt_once decode opts (net a) = (r, chunks)"
    by (cases "attempt_once decode opts (net a)")
  show ?thesis
  proof (cases r)
    case (Inl e)
    with assms(2) ao have "\<not> (below a N \<and> isRetryable e)"
      by (simp add: retryable_failure_def)
    with Inl show ?thesis
      by (subst chat_from.simps) (auto simp: ao assms(1) Let_def)
  next
    case (Inr msg)
    then show ?thesis
      by (subst chat_from.simps) (simp add: ao assms(1) Let_def)
  qed
qed

lemma chat_from_out:
  assumes "\<not> at_most a N"
  shows "chat_from decode opts N net a tr =
           Some (Inl (Thrown ''Error'' ''LLM request failed after retries''), tr)"
  using assms by (subst chat_from.simps) simp

text \<open>The loop over \<open>n\<close> attempts from the attempt \<open>a\<close> on, when each of them is retried.\<close>

lemma chat_from_skip:
  assumes "\<And>j. a \<le> j \<Longrightarrow> j < a + n \<Longrightarrow> below j N \<and> retryable_failure decode opts (net j)"
  shows "chat_from decode opts N net a tr =
           chat_from decode opts N net (a + n)
             (tr\<lparr>t_requests := t_requests tr + n,
                 t_delays := t_delays tr @ map backoff [a..<a + n],
                 t_chunks := t_chunks tr
                   @ concat (map (\<lambda>j. snd (attempt_once decode opts (net j))) [a..<a + n])\<rparr>)"
  using assms
proof (induction n arbitrary: a tr)
  case 0
  then show ?case by simp
next
  case (Suc n)
  let ?tr = "tr\<lparr>t_requests := Suc (t_requests tr),
                 t_chunks := t_chunks tr @ snd (attempt_once decode opts (net a)),
                 t_delays := t_delays tr @ [backoff a]\<rparr>"
  from Suc.prems[of a] have "below a N" "retryable_failure decode opts (net a)"
    by simp_all
  then have step: "chat_from decode opts N net a tr = chat_from decode opts N net (Suc a) ?tr"
    by (rule chat_from_retry)
  have rest: "chat_from decode opts N net (Suc a) ?tr =
           chat_from decode opts N net (Suc a + n)
             (?tr\<lparr>t_requests := t_requests ?tr + n,
                 t_delays := t_delays ?tr @ map backoff [Suc a..<Suc a + n],
                 t_chunks := t_chunks ?tr
                   @ concat (map (\<lambda>j. snd (attempt_once decode opts (net j))) [Suc a..<Suc a + n])\<rparr>)"
    using Suc.prems by (intro Suc.IH) simp
  have r1: "[a..<a + Suc n] = a # [Suc a..<Suc a + n]" by (simp add: upt_conv_Cons)
  show ?case
    unfolding step rest r1 by simp
qed

text \<open>The loop does not end when every attempt is retried.\<close>

lemma chat_from_Some:
  assumes "chat_from decode opts N net a tr = Some y"
  shows "\<exists>j \<ge> a. \<not> (below j N \<and> retryable_failure decode opts (net j))"
proof (rule chat_from.raw_induct[where P = "\<lambda>decode opts N net a tr y.
          \<exists>j \<ge> a. \<not> (below j N \<and> retryable_failure decode opts (net j))", OF _ assms])
  fix f decode opts N net a tr y
  assume ih: "\<And>decode opts N net a tr y. f decode opts N net a tr = Some y \<Longrightarrow>
                \<exists>j \<ge> a. \<not> (below j N \<and> retryable_failure decode opts (net j))"
    and body: "(if at_most a N then
        (case attempt_once decode opts (net a) of
           (r, chunks) \<Rightarrow>
             (let tr1 = tr\<lparr>t_requests := Suc (t_requests tr), t_chunks := t_chunks tr @ chunks\<rparr>
              in case r of
                   Inr msg \<Rightarrow> Some (Inr msg, tr1)
                 | Inl error \<Rightarrow>
                     if below a N \<and> isRetryable error
                     then f decode opts N net (Suc a)
                            (tr1\<lparr>t_delays := t_delays tr1 @ [min (1000 * 2 ^ a) 10000]\<rparr>)
                     else Some (Inl error, tr1)))
      else Some (Inl (Thrown ''Error'' ''LLM request failed after retries''), tr)) = Some y"
  show "\<exists>j \<ge> a. \<not> (below j N \<and> retryable_failure decode opts (net j))"
  proof (cases "below a N \<and> retryable_failure decode opts (net a)")
    case False
    then show ?thesis by blast
  next
    case True
    then obtain e where e: "fst (attempt_once decode opts (net a)) = Inl e" "isRetryable e"
      by (auto simp: retryable_failure_cases)
    then obtain chunks where ao: "attempt_once decode opts (net a) = (Inl e, chunks)"
      by (cases "attempt_once decode opts (net a)") auto
    from True have b: "below a N" "at_most a N" by (simp_all add: below_at_most)
    from body have "f decode opts N net (Suc a)
        (tr\<lparr>t_requests := Suc (t_requests tr), t_chunks := t_chunks tr @ chunks,
            t_delays := t_delays tr @ [min (1000 * 2 ^ a) 10000]\<rparr>) = Some y"
      by (simp add: ao b e(2) Let_def)
    from ih[OF this] obtain j where "j \<ge> Suc a"
      "\<not> (below j N \<and> retryable_failure decode opts (net j))" by blast
    then show ?thesis by (intro exI[of _ j]) simp
  qed
qed

text \<open>
  What a call of \<open>chat\<close> comes to: with \<open>k\<close> the first attempt that is not retried, the
  attempts before \<open>k\<close> are made and waited for; if \<open>k\<close> is within the bound, the
  attempt \<open>k\<close> is made and its outcome is the outcome of the call, and otherwise the
  call throws its own error.
\<close>

lemma chat_from_first:
  assumes before: "\<And>j. j < k \<Longrightarrow> below j N \<and> retryable_failure decode opts (net j)"
    and at: "\<not> (below k N \<and> retryable_failure decode opts (net k))"
  shows "chat_from decode opts N net 0 \<lparr>t_requests = 0, t_delays = [], t_chunks = []\<rparr> =
           (if at_most k N
            then Some (fst (attempt_once decode opts (net k)),
                       \<lparr>t_requests = Suc k, t_delays = map backoff [0..<k],
                        t_chunks = concat (map (\<lambda>j. snd (attempt_once decode opts (net j)))
                                             [0..<Suc k])\<rparr>)
            else Some (Inl (Thrown ''Error'' ''LLM request failed after retries''),
                       \<lparr>t_requests = k, t_delays = map backoff [0..<k],
                        t_chunks = concat (map (\<lambda>j. snd (attempt_once decode opts (net j)))
                                             [0..<k])\<rparr>))"
proof -
  let ?tr0 = "\<lparr>t_requests = 0, t_delays = [], t_chunks = []\<rparr>"
  have skip: "chat_from decode opts N net 0 ?tr0 =
           chat_from decode opts N net k
             \<lparr>t_requests = k, t_delays = map backoff [0..<k],
              t_chunks = concat (map (\<lambda>j. snd (attempt_once decode opts (net j))) [0..<k])\<rparr>"
    using chat_from_skip[of 0 k N decode opts net ?tr0] before by simp
  show ?thesis
  proof (cases "at_most k N")
    case True
    from chat_from_stop[where net = net and a = k, OF True at] show ?thesis
      unfolding skip using True by simp
  next
    case False
    from chat_from_out[where a = k, OF False] show ?thesis
      unfolding skip using False by simp
  qed
qed

lemma first_not_retried:
  assumes "\<exists>j. \<not> (below j N \<and> retryable_failure decode opts (net j))"
  shows "\<exists>k. (\<forall>j < k. below j N \<and> retryable_failure decode opts (net j)) \<and>
              \<not> (below k N \<and> retryable_failure decode opts (net k))"
proof -
  let ?P = "\<lambda>j. \<not> (below j N \<and> retryable_failure decode opts (net j))"
  from assms have "?P (LEAST j. ?P j)" by (rule LeastI_ex)
  moreover have "\<not> ?P j" if "j < (LEAST j. ?P j)" for j
    using that by (rule not_less_Least)
  ultimately show ?thesis by blast
qed

lemma show_nat_3digits:
  assumes "100 \<le> s" and "s < 1000"
  shows "show_nat s = [digit_char (s div 100), digit_char (s div 10 mod 10), digit_char (s mod 10)]"
proof -
  have a: "\<not> s < 10" "\<not> s div 10 < 10" "s div 10 div 10 < 10" using assms by auto
  have b: "s div 10 div 10 = s div 100" by (simp add: div_mult2_eq)
  have 1: "show_nat s = show_nat (s div 10) @ [digit_char (s mod 10)]"
    using a(1) by (subst show_nat.simps) simp
  have 2: "show_nat (s div 10) = show_nat (s div 10 div 10) @ [digit_char (s div 10 mod 10)]"
    using a(2) by (subst show_nat.simps) simp
  have 3: "show_nat (s div 10 div 10) = [digit_char (s div 10 div 10)]"
    using a(3) by (subst show_nat.simps) simp
  show ?thesis
    by (simp only: 1 2 3 append.simps append_assoc) (simp add: b)
qed

lemma js_includes_nonempty: "js_includes m p \<Longrightarrow> p \<noteq> [] \<Longrightarrow> m \<noteq> []"
  by (cases m) (auto simp: js_includes_def)

lemma isRetryable_abort: "isRetryable (Thrown ''AbortError'' m)"
  by (simp add: isRetryable_def)

lemma isRetryable_marker:
  assumes "js_includes (err_message e) ''ECONNRESET'' \<or> js_includes (err_message e) ''ETIMEDOUT''
           \<or> js_includes (err_message e) ''fetch failed''"
  shows "isRetryable e"
  using assms js_includes_nonempty[of "err_message e"] by (auto simp: isRetryable_def)

lemma attempt_once_status:
  assumes "\<not> r_ok resp" and "r_text resp = Inr text"
  shows "attempt_once decode opts (Fetch_response resp) =
           (Inl (Thrown ''Error'' (''API Error '' @ show_nat (r_status resp) @ '': '' @ text)), [])"
  using assms by (simp add: attempt_once_def)

lemma status_5xx_retryable:
  assumes "500 \<le> s" and "s \<le> 599"
  shows "isRetryable (Thrown ''Error'' (''API Error '' @ show_nat s @ '': '' @ text))"
proof -
  have "s div 100 = 5" using assms by simp
  then show ?thesis
    using assms by (simp add: isRetryable_def show_nat_3digits digit_char_def)
qed

lemma status_4xx_not_5:
  assumes "400 \<le> s" and "s \<le> 499"
  shows "\<not> startsWith (''API Error '' @ show_nat s @ '': '' @ text) ''API Error 5''"
proof -
  have "s div 100 = 4" using assms by simp
  then show ?thesis
    using assms by (simp add: show_nat_3digits digit_char_def)
qed


text \<open>Every message that the client returns has the role \<open>assistant\<close>.\<close>

lemma attempt_once_role:
  "fst (attempt_once decode opts outcome) = Inr msg \<Longrightarrow> m_role msg = Assistant"
  by (auto simp: attempt_once_def parseStreamResponse_def on_end_def Let_def
      split: fetch_outcome.splits sum.splits option.splits if_splits prod.splits stream_end.splits)


lemma status_4xx_retryable_iff:
  assumes "400 \<le> s" and "s \<le> 499"
  shows "isRetryable (Thrown ''Error'' (''API Error '' @ show_nat s @ '': '' @ body)) \<longleftrightarrow>
           js_includes (''API Error '' @ show_nat s @ '': '' @ body) ''ECONNRESET'' \<or>
           js_includes (''API Error '' @ show_nat s @ '': '' @ body) ''ETIMEDOUT'' \<or>
           js_includes (''API Error '' @ show_nat s @ '': '' @ body) ''fetch failed''"
  using status_4xx_not_5[OF assms, of body] by (simp add: isRetryable_def)

text \<open>
  What a call of \<open>chat\<close> comes to. Either every attempt is retried, and the call does
  not return; or there is a first attempt \<open>k\<close> that is not retried.
\<close>

lemma llm_chat_cases:
  fixes config decode opts net
  defines "N \<equiv> (case retries config of None \<Rightarrow> Number 3 | Some n \<Rightarrow> n)"
  defines "retried \<equiv> (\<lambda>j. below j N \<and> retryable_failure decode opts (net j))"
  shows "((\<forall>j. retried j) \<and> llm_chat config decode opts net = None) \<or>
         (\<exists>k. (\<forall>j < k. retried j) \<and> \<not> retried k \<and>
              llm_chat config decode opts net =
                (if at_most k N
                 then Some (fst (attempt_once decode opts (net k)),
                       \<lparr>t_requests = Suc k, t_delays = map backoff [0..<k],
                        t_chunks = concat (map (\<lambda>j. snd (attempt_once decode opts (net j)))
                                             [0..<Suc k])\<rparr>)
                 else Some (Inl (Thrown ''Error'' ''LLM request failed after retries''),
                       \<lparr>t_requests = k, t_delays = map backoff [0..<k],
                        t_chunks = concat (map (\<lambda>j. snd (attempt_once decode opts (net j)))
                                             [0..<k])\<rparr>)))"
proof (cases "\<forall>j. retried j")
  case True
  have "llm_chat config decode opts net = None"
  proof (cases "llm_chat config decode opts net")
    case None
    then show ?thesis .
  next
    case (Some y)
    then have "chat_from decode opts N net 0 \<lparr>t_requests = 0, t_delays = [], t_chunks = []\<rparr> = Some y"
      by (simp add: llm_chat_def N_def)
    from chat_from_Some[OF this] True show ?thesis
      by (auto simp: retried_def)
  qed
  with True show ?thesis by blast
next
  case False
  then have "\<exists>j. \<not> (below j N \<and> retryable_failure decode opts (net j))"
    by (simp add: retried_def)
  from first_not_retried[OF this] obtain k where
    k: "\<forall>j < k. below j N \<and> retryable_failure decode opts (net j)"
       "\<not> (below k N \<and> retryable_failure decode opts (net k))" by blast
  have "llm_chat config decode opts net =
                (if at_most k N
                 then Some (fst (attempt_once decode opts (net k)),
                       \<lparr>t_requests = Suc k, t_delays = map backoff [0..<k],
                        t_chunks = concat (map (\<lambda>j. snd (attempt_once decode opts (net j)))
                                             [0..<Suc k])\<rparr>)
                 else Some (Inl (Thrown ''Error'' ''LLM request failed after retries''),
                       \<lparr>t_requests = k, t_delays = map backoff [0..<k],
                        t_chunks = concat (map (\<lambda>j. snd (attempt_once decode opts (net j)))
                                             [0..<k])\<rparr>))"
    unfolding llm_chat_def N_def[symmetric]
    by (rule chat_from_first) (use k in auto)
  with k show ?thesis unfolding retried_def by blast
qed

lemma llm_chat_role:
  assumes "llm_chat config decode opts net = Some (Inr msg, tr)"
  shows "m_role msg = Assistant"
proof -
  from llm_chat_cases[of config decode opts net] assms
  obtain k where "fst (attempt_once decode opts (net k)) = Inr msg"
    by (auto split: if_splits)
  then show ?thesis by (rule attempt_once_role)
qed


text \<open>
  Claim C3, as amended. With \<open>N\<close> the configured number of retries (3 when none is
  configured), the attempts are numbered from 0 and an attempt is made only while its
  number is at most \<open>N\<close>, so that at most \<open>N\<close> attempts follow the first. A failed
  attempt is retried only when its error is classified as retryable and its number is
  below \<open>N\<close>, and the client waits \<open>min (1000 * 2 ^ attempt) 10000\<close> milliseconds
  before the retry. The outcome of the first attempt that is not a retryable failure is
  the outcome of the call: a message is returned, and an error that is not retryable
  propagates at once. When every attempt within the bound fails retryably, the call
  throws: the error of the last attempt when \<open>N\<close> is a whole number, and otherwise,
  after one more wait, an error of its own. The call returns unless \<open>N\<close> is
  \<open>Infinity\<close> and every attempt fails retryably.

  Classified as retryable are the errors named \<open>AbortError\<close> and the errors whose
  message contains \<open>ECONNRESET\<close>, \<open>ETIMEDOUT\<close> or \<open>fetch failed\<close>, or starts with
  \<open>API Error 5\<close>. The error raised for a response with a 5xx status is retryable. The
  error raised for a response with a 4xx status is retryable exactly when its message,
  which ends with the text of the response, contains one of the three markers.
\<close>

theorem retry_policy:
  fixes config decode opts net
  defines "N \<equiv> (case retries config of None \<Rightarrow> Number 3 | Some n \<Rightarrow> n)"
    and "failed \<equiv> (\<lambda>j. retryable_failure decode opts (net j))"
    and "outcome \<equiv> (\<lambda>j. fst (attempt_once decode opts (net j)))"
    and "result \<equiv> llm_chat config decode opts net"
  shows
    "(N \<noteq> Plus_infinity \<or> (\<exists>j. \<not> failed j) \<longrightarrow> (\<exists>r tr. result = Some (r, tr))) \<and>
     (N = Plus_infinity \<and> (\<forall>j. failed j) \<longrightarrow> result = None) \<and>
     (\<forall>r tr. result = Some (r, tr) \<longrightarrow>
        (\<forall>j < t_requests tr. at_most j N) \<and>
        (at_most 0 N \<longrightarrow> 1 \<le> t_requests tr) \<and>
        (\<forall>j. Suc j < t_requests tr \<longrightarrow>
           failed j \<and> j < length (t_delays tr) \<and>
           t_delays tr ! j = min (1000 * 2 ^ j) 10000) \<and>
        ((1 \<le> t_requests tr \<and> r = outcome (t_requests tr - 1) \<and>
          \<not> (failed (t_requests tr - 1) \<and> below (t_requests tr - 1) N) \<and>
          t_delays tr = map backoff [0..<t_requests tr - 1]) \<or>
         (\<not> at_most (t_requests tr) N \<and> (\<forall>j < t_requests tr. failed j \<and> below j N) \<and>
          r = Inl (Thrown ''Error'' ''LLM request failed after retries'') \<and>
          t_delays tr = map backoff [0..<t_requests tr]))) \<and>
     (\<forall>j. at_most j N \<and> (\<forall>i < j. failed i) \<and> \<not> failed j \<longrightarrow>
        (\<exists>tr. result = Some (outcome j, tr) \<and> t_requests tr = j + 1)) \<and>
     (N \<noteq> Plus_infinity \<and> (\<forall>j. at_most j N \<longrightarrow> failed j) \<longrightarrow>
        (\<exists>e tr. result = Some (Inl e, tr) \<and> (\<forall>j. j < t_requests tr \<longleftrightarrow> at_most j N))) \<and>
     (\<forall>j. failed j \<longleftrightarrow> (\<exists>e. outcome j = Inl e \<and> isRetryable e)) \<and>
     (\<forall>e. isRetryable e \<longleftrightarrow>
            err_name e = ''AbortError'' \<or>
            js_includes (err_message e) ''ECONNRESET'' \<or>
            js_includes (err_message e) ''ETIMEDOUT'' \<or>
            js_includes (err_message e) ''fetch failed'' \<or>
            startsWith (err_message e) ''API Error 5'') \<and>
     (\<forall>resp body. 500 \<le> r_status resp \<and> r_status resp \<le> 599 \<and> r_text resp = Inr body \<longrightarrow>
        retryable_failure decode opts (Fetch_response resp)) \<and>
     (\<forall>resp body. 400 \<le> r_status resp \<and> r_status resp \<le> 499 \<and> r_text resp = Inr body \<longrightarrow>
        (retryable_failure decode opts (Fetch_response resp) \<longleftrightarrow>
           js_includes (''API Error '' @ show_nat (r_status resp) @ '': '' @ body) ''ECONNRESET'' \<or>
           js_includes (''API Error '' @ show_nat (r_status resp) @ '': '' @ body) ''ETIMEDOUT'' \<or>
           js_includes (''API Error '' @ show_nat (r_status resp) @ '': '' @ body) ''fetch failed''))"
proof -
  let ?retried = "\<lambda>j. below j N \<and> failed j"
  let ?in = "\<lambda>k. Some (outcome k,
                       \<lparr>t_requests = Suc k, t_delays = map backoff [0..<k],
                        t_chunks = concat (map (\<lambda>j. snd (attempt_once decode opts (net j)))
                                             [0..<Suc k])\<rparr>)"
  let ?out = "\<lambda>k. Some (Inl (Thrown ''Error'' ''LLM request failed after retries''),
                       \<lparr>t_requests = k, t_delays = map backoff [0..<k],
                        t_chunks = concat (map (\<lambda>j. snd (attempt_once decode opts (net j)))
                                             [0..<k])\<rparr>)"
  have cases: "((\<forall>j. ?retried j) \<and> result = None) \<or>
         (\<exists>k. (\<forall>j < k. ?retried j) \<and> \<not> ?retried k \<and>
              result = (if at_most k N then ?in k else ?out k))"
    unfolding N_def failed_def outcome_def result_def by (rule llm_chat_cases)
  have unbounded: "N = Plus_infinity" if "\<forall>j. ?retried j"
    using that by (intro below_unbounded) simp
  have first: "result = (if at_most k N then ?in k else ?out k)"
    if "\<forall>j < k. ?retried j" "\<not> ?retried k" for k
  proof -
    from that(2) cases obtain k' where k': "\<forall>j < k'. ?retried j" "\<not> ?retried k'"
      "result = (if at_most k' N then ?in k' else ?out k')" by blast
    have "\<not> k < k'" using k'(1) that(2) by blast
    moreover have "\<not> k' < k" using k'(2) that(1) by blast
    ultimately have "k' = k" by simp
    with k'(3) show ?thesis by simp
  qed
  have c1: "N \<noteq> Plus_infinity \<or> (\<exists>j. \<not> failed j) \<longrightarrow> (\<exists>r tr. result = Some (r, tr))"
  proof
    assume "N \<noteq> Plus_infinity \<or> (\<exists>j. \<not> failed j)"
    with unbounded have "\<not> (\<forall>j. ?retried j)" by blast
    with cases obtain k where "result = (if at_most k N then ?in k else ?out k)" by blast
    then show "\<exists>r tr. result = Some (r, tr)" by (cases "at_most k N") simp_all
  qed
  have c2: "N = Plus_infinity \<and> (\<forall>j. failed j) \<longrightarrow> result = None"
  proof
    assume "N = Plus_infinity \<and> (\<forall>j. failed j)"
    then have "\<forall>j. ?retried j" by simp
    with cases show "result = None" by blast
  qed
  have c3: "(\<forall>j < t_requests tr. at_most j N) \<and>
        (at_most 0 N \<longrightarrow> 1 \<le> t_requests tr) \<and>
        (\<forall>j. Suc j < t_requests tr \<longrightarrow>
           failed j \<and> j < length (t_delays tr) \<and>
           t_delays tr ! j = min (1000 * 2 ^ j) 10000) \<and>
        ((1 \<le> t_requests tr \<and> r = outcome (t_requests tr - 1) \<and>
          \<not> (failed (t_requests tr - 1) \<and> below (t_requests tr - 1) N) \<and>
          t_delays tr = map backoff [0..<t_requests tr - 1]) \<or>
         (\<not> at_most (t_requests tr) N \<and> (\<forall>j < t_requests tr. failed j \<and> below j N) \<and>
          r = Inl (Thrown ''Error'' ''LLM request failed after retries'') \<and>
          t_delays tr = map backoff [0..<t_requests tr]))"
    if res: "result = Some (r, tr)" for r tr
  proof -
    from res cases obtain k where k: "\<forall>j < k. ?retried j" "\<not> ?retried k"
      "result = (if at_most k N then ?in k else ?out k)" by auto
    show ?thesis
    proof (cases "at_most k N")
      case True
      with k(3) res have r: "r = outcome k" and tr: "t_requests tr = Suc k"
        "t_delays tr = map backoff [0..<k]" by auto
      have a: "\<forall>j < t_requests tr. at_most j N"
        using True at_most_le[of k N] by (simp add: tr less_Suc_eq_le)
      have b: "\<forall>j. Suc j < t_requests tr \<longrightarrow>
           failed j \<and> j < length (t_delays tr) \<and> t_delays tr ! j = min (1000 * 2 ^ j) 10000"
        using k(1) by (simp add: tr backoff_def)
      have c: "1 \<le> t_requests tr \<and> r = outcome (t_requests tr - 1) \<and>
          \<not> (failed (t_requests tr - 1) \<and> below (t_requests tr - 1) N) \<and>
          t_delays tr = map backoff [0..<t_requests tr - 1]"
        using k(2) by (auto simp: tr r)
      from a b c show ?thesis by (simp add: tr)
    next
      case False
      with k(3) res have r: "r = Inl (Thrown ''Error'' ''LLM request failed after retries'')"
        and tr: "t_requests tr = k" "t_delays tr = map backoff [0..<k]" by auto
      have a: "\<forall>j < t_requests tr. at_most j N"
        using k(1) below_at_most by (simp add: tr)
      have a0: "at_most 0 N \<longrightarrow> 1 \<le> t_requests tr"
        using False by (cases k) (simp_all add: tr)
      have b: "\<forall>j. Suc j < t_requests tr \<longrightarrow>
           failed j \<and> j < length (t_delays tr) \<and> t_delays tr ! j = min (1000 * 2 ^ j) 10000"
        using k(1) by (simp add: tr backoff_def)
      have c: "\<not> at_most (t_requests tr) N \<and> (\<forall>j < t_requests tr. failed j \<and> below j N) \<and>
          r = Inl (Thrown ''Error'' ''LLM request failed after retries'') \<and>
          t_delays tr = map backoff [0..<t_requests tr]"
        using False k(1) by (simp add: tr r)
      from a a0 b c show ?thesis by blast
    qed
  qed
  have c4: "\<exists>tr. result = Some (outcome j, tr) \<and> t_requests tr = j + 1"
    if "at_most j N" "\<forall>i < j. failed i" "\<not> failed j" for j
  proof -
    have "\<forall>i < j. ?retried i" using that(1,2) at_most_less by blast
    moreover have "\<not> ?retried j" using that(3) by simp
    ultimately have "result = (if at_most j N then ?in j else ?out j)" by (rule first)
    with that(1) show ?thesis by simp
  qed
  have c5: "\<exists>e tr. result = Some (Inl e, tr) \<and> (\<forall>j. j < t_requests tr \<longleftrightarrow> at_most j N)"
    if fin: "N \<noteq> Plus_infinity" and all: "\<forall>j. at_most j N \<longrightarrow> failed j"
  proof -
    from fin unbounded have "\<not> (\<forall>j. ?retried j)" by blast
    with cases obtain k where k: "\<forall>j < k. ?retried j" "\<not> ?retried k"
      "result = (if at_most k N then ?in k else ?out k)" by blast
    show ?thesis
    proof (cases "at_most k N")
      case True
      with all have f: "failed k" by blast
      with k(2) have nb: "\<not> below k N" by simp
      from f obtain e where e: "outcome k = Inl e"
        by (auto simp: failed_def outcome_def retryable_failure_cases)
      have "j < Suc k \<longleftrightarrow> at_most j N" for j
      proof
        assume "j < Suc k"
        then show "at_most j N" using True at_most_le[of k N j] by simp
      next
        assume "at_most j N"
        show "j < Suc k"
        proof (rule ccontr)
          assume "\<not> j < Suc k"
          then have "k < j" by simp
          with \<open>at_most j N\<close> have "below k N" by (rule at_most_less)
          with nb show False by simp
        qed
      qed
      with True k(3) e show ?thesis by simp
    next
      case False
      have "j < k \<longleftrightarrow> at_most j N" for j
      proof
        assume "j < k"
        with k(1) show "at_most j N" using below_at_most by blast
      next
        assume "at_most j N"
        show "j < k"
        proof (rule ccontr)
          assume "\<not> j < k"
          then have "k \<le> j" by simp
          with \<open>at_most j N\<close> have "at_most k N" by (rule at_most_le)
          with False show False by simp
        qed
      qed
      with False k(3) show ?thesis by simp
    qed
  qed
  have c6: "\<forall>j. failed j \<longleftrightarrow> (\<exists>e. outcome j = Inl e \<and> isRetryable e)"
    by (simp add: failed_def outcome_def retryable_failure_cases)
  have c7: "\<forall>e. isRetryable e \<longleftrightarrow>
            err_name e = ''AbortError'' \<or>
            js_includes (err_message e) ''ECONNRESET'' \<or>
            js_includes (err_message e) ''ETIMEDOUT'' \<or>
            js_includes (err_message e) ''fetch failed'' \<or>
            startsWith (err_message e) ''API Error 5''"
    by (auto simp: isRetryable_def js_includes_def)
  have c8: "\<forall>resp body. 500 \<le> r_status resp \<and> r_status resp \<le> 599 \<and> r_text resp = Inr body \<longrightarrow>
        retryable_failure decode opts (Fetch_response resp)"
  proof (intro allI impI)
    fix resp :: response and body
    assume a: "500 \<le> r_status resp \<and> r_status resp \<le> 599 \<and> r_text resp = Inr body"
    then have "\<not> r_ok resp" by (simp add: r_ok_def)
    with a attempt_once_status[of resp body decode opts]
      status_5xx_retryable[of "r_status resp" body]
    show "retryable_failure decode opts (Fetch_response resp)"
      by (simp add: retryable_failure_def)
  qed
  have c9: "\<forall>resp body. 400 \<le> r_status resp \<and> r_status resp \<le> 499 \<and> r_text resp = Inr body \<longrightarrow>
        (retryable_failure decode opts (Fetch_response resp) \<longleftrightarrow>
           js_includes (''API Error '' @ show_nat (r_status resp) @ '': '' @ body) ''ECONNRESET'' \<or>
           js_includes (''API Error '' @ show_nat (r_status resp) @ '': '' @ body) ''ETIMEDOUT'' \<or>
           js_includes (''API Error '' @ show_nat (r_status resp) @ '': '' @ body) ''fetch failed'')"
  proof (intro allI impI)
    fix resp :: response and body
    assume a: "400 \<le> r_status resp \<and> r_status resp \<le> 499 \<and> r_text resp = Inr body"
    then have "\<not> r_ok resp" by (simp add: r_ok_def)
    with a attempt_once_status[of resp body decode opts]
      status_4xx_retryable_iff[of "r_status resp" body]
    show "retryable_failure decode opts (Fetch_response resp) \<longleftrightarrow>
           js_includes (''API Error '' @ show_nat (r_status resp) @ '': '' @ body) ''ECONNRESET'' \<or>
           js_includes (''API Error '' @ show_nat (r_status resp) @ '': '' @ body) ''ETIMEDOUT'' \<or>
           js_includes (''API Error '' @ show_nat (r_status resp) @ '': '' @ body) ''fetch failed''"
      by (simp add: retryable_failure_def)
  qed
  have c3': "\<forall>r tr. result = Some (r, tr) \<longrightarrow>
        (\<forall>j < t_requests tr. at_most j N) \<and>
        (at_most 0 N \<longrightarrow> 1 \<le> t_requests tr) \<and>
        (\<forall>j. Suc j < t_requests tr \<longrightarrow>
           failed j \<and> j < length (t_delays tr) \<and>
           t_delays tr ! j = min (1000 * 2 ^ j) 10000) \<and>
        ((1 \<le> t_requests tr \<and> r = outcome (t_requests tr - 1) \<and>
          \<not> (failed (t_requests tr - 1) \<and> below (t_requests tr - 1) N) \<and>
          t_delays tr = map backoff [0..<t_requests tr - 1]) \<or>
         (\<not> at_most (t_requests tr) N \<and> (\<forall>j < t_requests tr. failed j \<and> below j N) \<and>
          r = Inl (Thrown ''Error'' ''LLM request failed after retries'') \<and>
          t_delays tr = map backoff [0..<t_requests tr]))"
    using c3 by blast
  have c4': "\<forall>j. at_most j N \<and> (\<forall>i < j. failed i) \<and> \<not> failed j \<longrightarrow>
        (\<exists>tr. result = Some (outcome j, tr) \<and> t_requests tr = j + 1)"
    using c4 by blast
  have c5': "N \<noteq> Plus_infinity \<and> (\<forall>j. at_most j N \<longrightarrow> failed j) \<longrightarrow>
        (\<exists>e tr. result = Some (Inl e, tr) \<and> (\<forall>j. j < t_requests tr \<longleftrightarrow> at_most j N))"
    using c5 by blast
  show ?thesis
    by (rule conjI[OF c1], rule conjI[OF c2], rule conjI[OF c3'], rule conjI[OF c4'],
        rule conjI[OF c5'], rule conjI[OF c6], rule conjI[OF c7], rule conjI[OF c8], rule c9)
qed


lemmas client_eval = llm_chat_def demo_config_def half_config_def plain_def flaky_def down_def
  rejecting_def refusing_def server_error_def success_def not_found_def bad_request_def
  chat_from.simps attempt_once_def r_ok_def isRetryable_def js_includes_def show_nat.simps
  digit_char_def Let_def

theorem retry_policy_witness:
  "llm_chat demo_config no_decoder plain flaky =
     Some (Inr \<lparr>m_role = Assistant, m_content = Some ''hello'', m_tool_calls = None,
                m_tool_call_id = None, m_name = None\<rparr>,
           \<lparr>t_requests = 2, t_delays = [1000], t_chunks = []\<rparr>) \<and>
   llm_chat demo_config no_decoder plain down =
     Some (Inl (Thrown ''Error'' ''API Error 500: overloaded''),
           \<lparr>t_requests = 4, t_delays = [1000, 2000, 4000], t_chunks = []\<rparr>) \<and>
   llm_chat demo_config no_decoder plain rejecting =
     Some (Inl (Thrown ''Error'' ''API Error 404: no such model''),
           \<lparr>t_requests = 1, t_delays = [], t_chunks = []\<rparr>) \<and>
   llm_chat half_config no_decoder plain down =
     Some (Inl (Thrown ''Error'' ''LLM request failed after retries''),
           \<lparr>t_requests = 3, t_delays = [1000, 2000, 4000], t_chunks = []\<rparr>)"
proof -
  have n: "(case retries demo_config of None \<Rightarrow> Number 3 | Some n \<Rightarrow> n) = Number 3"
    by (simp add: demo_config_def)
  have flaky: "llm_chat demo_config no_decoder plain flaky =
     Some (Inr \<lparr>m_role = Assistant, m_content = Some ''hello'', m_tool_calls = None,
                m_tool_call_id = None, m_name = None\<rparr>,
           \<lparr>t_requests = 2, t_delays = [1000], t_chunks = []\<rparr>)"
    by (simp add: client_eval)
  have err: "attempt_once no_decoder plain (Fetch_response server_error)
               = (Inl (Thrown ''Error'' ''API Error 500: overloaded''), [])"
    "retryable_failure no_decoder plain (Fetch_response server_error)"
    "attempt_once no_decoder plain (Fetch_response not_found)
               = (Inl (Thrown ''Error'' ''API Error 404: no such model''), [])"
    "\<not> retryable_failure no_decoder plain (Fetch_response not_found)"
    by (simp_all add: client_eval retryable_failure_def)
  note all = retry_policy[of demo_config no_decoder plain down, unfolded n]
  note exhausted = all[THEN conjunct2, THEN conjunct2, THEN conjunct2, THEN conjunct2,
      THEN conjunct1]
  have "Number 3 \<noteq> Plus_infinity \<and>
        (\<forall>j. at_most j (Number 3) \<longrightarrow> retryable_failure no_decoder plain (down j))"
    by (simp add: down_def err)
  with exhausted obtain e tr where
    d: "llm_chat demo_config no_decoder plain down = Some (Inl e, tr)"
       "\<forall>j. j < t_requests tr \<longleftrightarrow> at_most j (Number 3)"
    by blast
  from d(2)[rule_format, of 3] d(2)[rule_format, of 4] have "t_requests tr = 4" by simp
  with d(1) have "\<exists>e tr. llm_chat demo_config no_decoder plain down = Some (Inl e, tr) \<and>
                          t_requests tr = 4"
    by blast
  moreover have "llm_chat demo_config no_decoder plain down =
     Some (Inl (Thrown ''Error'' ''API Error 500: overloaded''),
           \<lparr>t_requests = 4, t_delays = [1000, 2000, 4000], t_chunks = []\<rparr>)"
    by (simp add: client_eval)
  ultimately have down: "llm_chat demo_config no_decoder plain down =
     Some (Inl (Thrown ''Error'' ''API Error 500: overloaded''),
           \<lparr>t_requests = 4, t_delays = [1000, 2000, 4000], t_chunks = []\<rparr>)"
    by simp
  note first = retry_policy[of demo_config no_decoder plain rejecting, unfolded n,
      THEN conjunct2, THEN conjunct2, THEN conjunct2, THEN conjunct1, rule_format, of 0]
  have "\<exists>tr. llm_chat demo_config no_decoder plain rejecting
                = Some (fst (attempt_once no_decoder plain (rejecting 0)), tr) \<and>
             t_requests tr = 0 + 1"
    by (rule first) (simp add: rejecting_def err)
  moreover have "llm_chat demo_config no_decoder plain rejecting =
     Some (Inl (Thrown ''Error'' ''API Error 404: no such model''),
           \<lparr>t_requests = 1, t_delays = [], t_chunks = []\<rparr>)"
    by (simp add: client_eval)
  ultimately have rejecting: "llm_chat demo_config no_decoder plain rejecting =
     Some (Inl (Thrown ''Error'' ''API Error 404: no such model''),
           \<lparr>t_requests = 1, t_delays = [], t_chunks = []\<rparr>)"
    by simp
  have half: "llm_chat half_config no_decoder plain down =
     Some (Inl (Thrown ''Error'' ''LLM request failed after retries''),
           \<lparr>t_requests = 3, t_delays = [1000, 2000, 4000], t_chunks = []\<rparr>)"
    by (simp add: client_eval)
  from flaky down rejecting half show ?thesis by simp
qed

text \<open>
  The claim as stated fails: the server answers 400 with the text \<open>fetch failed\<close>. The
  error raised for the response is \<open>API Error 400: fetch failed\<close>; its message contains
  \<open>fetch failed\<close>, so the failure is retried three times instead of propagating at once.
\<close>

theorem status_400_with_marker_is_retried:
  "r_status bad_request = 400 \<and>
   llm_chat demo_config no_decoder plain refusing =
     Some (Inl (Thrown ''Error'' ''API Error 400: fetch failed''),
           \<lparr>t_requests = 4, t_delays = [1000, 2000, 4000], t_chunks = []\<rparr>)"
  by (simp add: client_eval)


subsection \<open>Streaming\<close>

lemma split_from_Nil [simp]: "split_from sep cur [] = [cur]"
  by (subst split_from.simps) simp

lemma split_from_single [simp]:
  "split_from [c] cur (x # xs) =
     (if x = c then cur # split_from [c] [] xs else split_from [c] (cur @ [x]) xs)"
  by (subst split_from.simps) simp

lemma split_from_nonempty [simp]: "split_from [c] cur s \<noteq> []"
  by (induction s arbitrary: cur) auto

lemma split_from_append:
  "split_from [c] cur (s1 @ s2) =
     butlast (split_from [c] cur s1) @ split_from [c] (last (split_from [c] cur s1)) s2"
  by (induction s1 arbitrary: cur) auto

lemma split_from_last_clean:
  "c \<notin> set cur \<Longrightarrow> c \<notin> set (last (split_from [c] cur s))"
  by (induction s arbitrary: cur) auto

lemma split_from_clean:
  "c \<notin> set s \<Longrightarrow> split_from [c] cur s = [cur @ s]"
  by (induction s arbitrary: cur) auto

lemma process_line_buffer:
  "process_line decode (st\<lparr>s_buffer := b\<rparr>) line = (process_line decode st line)\<lparr>s_buffer := b\<rparr>"
  by (auto simp: process_line_def feed_delta_def Let_def split: option.splits tc_field.splits)

lemma foldl_process_line_buffer:
  "foldl (process_line decode) (st\<lparr>s_buffer := b\<rparr>) lines
     = (foldl (process_line decode) st lines)\<lparr>s_buffer := b\<rparr>"
  by (induction lines arbitrary: st) (simp_all add: process_line_buffer)

lemma on_data_lines:
  "on_data decode st chunk =
     (foldl (process_line decode) st (butlast (split_from [CHR 0x0A] [] (s_buffer st @ chunk))))
       \<lparr>s_buffer := last (split_from [CHR 0x0A] [] (s_buffer st @ chunk))\<rparr>"
  by (cases "split_from [CHR 0x0A] [] (s_buffer st @ chunk)")
     (simp_all add: on_data_def js_split_def Let_def foldl_process_line_buffer)

lemma s_buffer_foldl_process_line [simp]:
  "s_buffer (foldl (process_line decode) st lines) = s_buffer st"
  by (induction lines arbitrary: st)
     (auto simp: process_line_def feed_delta_def Let_def split: option.splits tc_field.splits)

lemma foldl_on_data:
  assumes "CHR 0x0A \<notin> set (s_buffer st)"
  shows "foldl (on_data decode) st chunks =
     (foldl (process_line decode) st
        (butlast (split_from [CHR 0x0A] [] (s_buffer st @ concat chunks))))
       \<lparr>s_buffer := last (split_from [CHR 0x0A] [] (s_buffer st @ concat chunks))\<rparr>"
  using assms
proof (induction chunks arbitrary: st)
  case Nil
  then show ?case by (simp add: split_from_clean)
next
  case (Cons c chunks)
  let ?nl = "CHR 0x0A"
  let ?lines = "split_from [?nl] [] (s_buffer st @ c)"
  let ?st1 = "on_data decode st c"
  have b1: "s_buffer ?st1 = last ?lines" by (simp add: on_data_lines)
  have clean: "?nl \<notin> set (s_buffer ?st1)"
    unfolding b1 by (rule split_from_last_clean) simp
  have sp: "split_from [?nl] [] (s_buffer st @ c @ concat chunks)
          = butlast ?lines @ split_from [?nl] (last ?lines) (concat chunks)"
    using split_from_append[of ?nl "[]" "s_buffer st @ c" "concat chunks"] by simp
  have sp2: "split_from [?nl] (last ?lines) (concat chunks)
           = split_from [?nl] [] (last ?lines @ concat chunks)"
    using split_from_append[of ?nl "[]" "last ?lines" "concat chunks"]
      split_from_clean[of ?nl "last ?lines" "[]"] clean[unfolded b1]
    by simp
  let ?rest = "split_from [?nl] [] (last ?lines @ concat chunks)"
  have whole: "split_from [?nl] [] (s_buffer st @ concat (c # chunks)) = butlast ?lines @ ?rest"
    using sp sp2 by simp
  have bl: "butlast (butlast ?lines @ ?rest) = butlast ?lines @ butlast ?rest"
    and la: "last (butlast ?lines @ ?rest) = last ?rest"
    by (simp_all add: butlast_append)
  have st1: "?st1 = (foldl (process_line decode) st (butlast ?lines))\<lparr>s_buffer := last ?lines\<rparr>"
    by (rule on_data_lines)
  have "foldl (on_data decode) st (c # chunks) = foldl (on_data decode) ?st1 chunks"
    by simp
  also have "\<dots> = (foldl (process_line decode) ?st1 (butlast ?rest))\<lparr>s_buffer := last ?rest\<rparr>"
    using Cons.IH[OF clean] by (simp add: b1)
  also have "foldl (process_line decode) ?st1 (butlast ?rest)
      = (foldl (process_line decode) st (butlast ?lines @ butlast ?rest))\<lparr>s_buffer := last ?lines\<rparr>"
    by (subst st1) (simp add: foldl_process_line_buffer)
  finally show ?case
    by (simp only: whole bl la) simp
qed


lemma foldl_process_line:
  "foldl (process_line decode) st lines =
     foldl (\<lambda>st d. feed_delta d st) st
       (List.map_filter
          (\<lambda>line. if startsWith line ''data: '' \<and> line \<noteq> ''data: [DONE]''
                  then decode (drop 6 line) else None) lines)"
  by (induction lines arbitrary: st)
     (auto simp: process_line_def List.map_filter_simps split: option.splits)

lemma feed_tcs_foldl:
  "feed_tcs tcs acc =
     foldl (\<lambda>acc tc. feed_tc tc acc) acc (map the (takeWhile (\<lambda>x. x \<noteq> None) tcs))"
  by (induction tcs acc rule: feed_tcs.induct) auto

lemma foldl_feed_delta:
  "s_sink (foldl (\<lambda>st d. feed_delta d st) st ds) = s_sink st @ content_fragments ds"
  "s_content (foldl (\<lambda>st d. feed_delta d st) st ds) = s_content st @ concat (content_fragments ds)"
  "s_accum (foldl (\<lambda>st d. feed_delta d st) st ds)
     = foldl (\<lambda>acc tc. feed_tc tc acc) (s_accum st) (tool_fragments ds)"
  by (induction ds arbitrary: st;
      auto simp: feed_delta_def content_fragments_def tool_fragments_def feed_tcs_foldl
        List.map_filter_simps Let_def split: option.splits tc_field.splits)+

lemma stream_state:
  "s_sink (foldl (on_data decode) init_stream chunks) = content_fragments (arriving decode chunks)"
  "s_content (foldl (on_data decode) init_stream chunks)
     = concat (content_fragments (arriving decode chunks))"
  "s_accum (foldl (on_data decode) init_stream chunks)
     = foldl (\<lambda>acc tc. feed_tc tc acc) [] (tool_fragments (arriving decode chunks))"
  by (simp_all add: foldl_on_data init_stream_def foldl_process_line foldl_feed_delta
      arriving_def complete_lines_def js_split_def)


lemma keys_modify [simp]: "map fst (modify idx f acc) = map fst acc"
  by (induction acc) (auto simp: modify_def)







lemma summed_Nil: "summed [] i = \<lparr>acc_id = None, acc_name = None, acc_args = []\<rparr>"
  by (simp add: summed_def last_given_def List.map_filter_simps Let_def)



lemma first_seen_Nil [simp]: "first_seen [] = []"
  by (simp add: first_seen_def)



lemma distinct_first_seen [simp]: "distinct (first_seen xs)"
  by (simp add: first_seen_def)



lemma array_index_of_nat:
  "n \<le> 4294967294 \<Longrightarrow> array_index (Number (of_nat n)) = Some n"
  by simp







lemma given_last_given [simp]: "given (last_given vs) = last_given vs"
proof -
  have "\<forall>g \<in> set (List.map_filter given vs). g \<noteq> []"
    by (auto simp: List.map_filter_def given_def split: option.splits if_splits)
  then show ?thesis
    by (auto simp: last_given_def Let_def given_def)
qed












end
